theory Spec2Isabelle
  imports Complex_Main
begin

section \<open>Smart City IoT data generator (scripts/generate\_data.py)\<close>

text \<open>
  A shallow embedding of the generator script. Python floats are modelled as reals and
  Python integers as \<open>int\<close>. A naive \<open>datetime\<close> is the number of microseconds
  since \<open>datetime.min\<close> (0001-01-01T00:00:00, a Monday), a \<open>timedelta\<close> a number of
  microseconds; arithmetic that leaves the range of either type raises
  \<open>OverflowError\<close>. The record field \<open>timestamp\<close> of a row holds the instant itself instead of its
  \<open>isoformat()\<close> rendering.
\<close>

subsection \<open>Dates and times\<close>

type_synonym datetime = int
type_synonym timedelta = int

definition hour :: "datetime \<Rightarrow> int" where
  "hour t = (t div 3600000000) mod 24"

text \<open>\<open>datetime.weekday()\<close>: Monday is 0 and Sunday is 6.\<close>

definition weekday :: "datetime \<Rightarrow> int" where
  "weekday t = (t div 86400000000) mod 7"

subsection \<open>Configuration\<close>

definition NUM_DAYS :: int where
  "NUM_DAYS = 7"

definition CITY_LAT_MIN :: real where "CITY_LAT_MIN = 40.7000"
definition CITY_LAT_MAX :: real where "CITY_LAT_MAX = 40.8000"
definition CITY_LON_MIN :: real where "CITY_LON_MIN = - 74.0200"
definition CITY_LON_MAX :: real where "CITY_LON_MAX = - 73.9000"

subsection \<open>Exceptions and the environment\<close>

datatype py_exception =
    ImportError | ModuleNotFoundError | OSError | KeyError | ZeroDivisionError
  | OverflowError | MemoryError | KeyboardInterrupt | SystemExit

text \<open>The two \<open>except\<close> clauses of \<open>main\<close> match by class: \<open>ModuleNotFoundError\<close> is a
  subclass of \<open>ImportError\<close>; \<open>KeyboardInterrupt\<close> and \<open>SystemExit\<close> derive from
  \<open>BaseException\<close> only.\<close>

fun isinstance_ImportError :: "py_exception \<Rightarrow> bool" where
  "isinstance_ImportError ImportError = True"
| "isinstance_ImportError ModuleNotFoundError = True"
| "isinstance_ImportError _ = False"

fun isinstance_Exception :: "py_exception \<Rightarrow> bool" where
  "isinstance_Exception KeyboardInterrupt = False"
| "isinstance_Exception SystemExit = False"
| "isinstance_Exception _ = True"

subsection \<open>Arithmetic on dates and times\<close>

text \<open>\<open>datetime.max\<close> is 9999-12-31T23:59:59.999999; \<open>datetime.min\<close> is 0.\<close>

definition datetime_max :: datetime where
  "datetime_max = 315537897599999999"

text \<open>\<open>timedelta.min\<close> is \<open>-999999999\<close> days and \<open>timedelta.max\<close> is one microsecond
  less than \<open>1000000000\<close> days.\<close>

definition timedelta_min :: timedelta where
  "timedelta_min = - 86399999913600000000"

definition timedelta_max :: timedelta where
  "timedelta_max = 86399999999999999999"

text \<open>The constructor rounds a fractional number of microseconds to the nearest whole
  number, a tie to the even one.\<close>

definition py_round_half_even :: "real \<Rightarrow> int" where
  "py_round_half_even x =
     (let f = \<lfloor>x\<rfloor>; d = x - of_int f
      in if d < 1 / 2 then f
         else if 1 / 2 < d then f + 1
         else if even f then f else f + 1)"

text \<open>\<open>timedelta(days=d)\<close> for the whole number of days of the configuration.\<close>

definition timedelta_days :: "int \<Rightarrow> timedelta" where
  "timedelta_days d = d * 86400000000"

text \<open>\<open>timedelta(minutes=m)\<close> for a Python number \<open>m\<close>, an \<open>int\<close> or a
  \<open>float\<close>.\<close>

definition timedelta_minutes :: "real \<Rightarrow> py_exception + timedelta" where
  "timedelta_minutes m =
     (let us = py_round_half_even (m * 60000000)
      in if us < timedelta_min \<or> timedelta_max < us then Inl OverflowError else Inr us)"

text \<open>\<open>t + d\<close> for a \<open>datetime\<close> and a \<open>timedelta\<close>.\<close>

definition datetime_add :: "datetime \<Rightarrow> timedelta \<Rightarrow> py_exception + datetime" where
  "datetime_add t d =
     (if t + d < 0 \<or> datetime_max < t + d then Inl OverflowError else Inr (t + d))"

text \<open>
  What the script reads from outside: the two successive readings of \<open>datetime.now()\<close>
  in the constructor, and for each call into the file system whether it raises
  (\<open>DATA_DIR.mkdir\<close>, and the writer of each output file, keyed by file name).
\<close>

record environment =
  now_first :: datetime
  now_second :: datetime
  mkdir_raises :: "py_exception option"
  write_raises :: "string \<Rightarrow> py_exception option"

subsection \<open>The random source\<close>

text \<open>
  numpy's global generator is modelled as the sequence of raw draws it will deliver,
  with the position in the sequence passed along as state: every sampling call reads the
  draw at the current position and advances the position by one. The sampling functions
  are numpy's: \<open>normal(loc, scale)\<close> is \<open>loc + scale * z\<close> for a standard normal draw
  \<open>z\<close>, \<open>uniform(low, high)\<close> is \<open>low + (high - low) * u\<close> for a draw \<open>u\<close> of
  \<open>random_sample()\<close> from the half-open interval from 0 to 1, \<open>exponential(scale)\<close> is
  \<open>scale * e\<close> for a standard exponential draw \<open>e\<close>, and \<open>choice(xs)\<close> picks the
  element at a random index below \<open>len(xs)\<close>.
\<close>

record random_source =
  standard_normal :: "nat \<Rightarrow> real"
  random_sample :: "nat \<Rightarrow> real"
  standard_exponential :: "nat \<Rightarrow> real"
  randint :: "nat \<Rightarrow> nat"

definition np_random_normal :: "random_source \<Rightarrow> real \<Rightarrow> real \<Rightarrow> nat \<Rightarrow> real \<times> nat" where
  "np_random_normal rng loc scale p = (loc + scale * standard_normal rng p, Suc p)"

definition np_random_uniform :: "random_source \<Rightarrow> real \<Rightarrow> real \<Rightarrow> nat \<Rightarrow> real \<times> nat" where
  "np_random_uniform rng low high p = (low + (high - low) * random_sample rng p, Suc p)"

definition np_random_exponential :: "random_source \<Rightarrow> real \<Rightarrow> nat \<Rightarrow> real \<times> nat" where
  "np_random_exponential rng scale p = (scale * standard_exponential rng p, Suc p)"

definition np_random_random :: "random_source \<Rightarrow> nat \<Rightarrow> real \<times> nat" where
  "np_random_random rng p = (random_sample rng p, Suc p)"

definition np_random_choice :: "random_source \<Rightarrow> 'a list \<Rightarrow> nat \<Rightarrow> 'a \<times> nat" where
  "np_random_choice rng xs p = (xs ! (randint rng p mod length xs), Suc p)"

text \<open>The draws a well-behaved generator delivers: uniform draws lie in the half-open
  unit interval and exponential draws are not negative.\<close>

definition draws_in_range :: "random_source \<Rightarrow> bool" where
  "draws_in_range rng \<longleftrightarrow>
     (\<forall>k. 0 \<le> random_sample rng k \<and> random_sample rng k < 1 \<and> 0 \<le> standard_exponential rng k)"

subsection \<open>Python helpers\<close>

text \<open>\<open>int(x)\<close> of a float truncates towards zero.\<close>

definition py_int :: "real \<Rightarrow> int" where
  "py_int x = (if 0 \<le> x then \<lfloor>x\<rfloor> else \<lceil>x\<rceil>)"

text \<open>The format specifications \<open>{i:03d}\<close> and \<open>{i:04d}\<close>: decimal digits, padded with
  zeros on the left to the given width.\<close>

fun decimal :: "nat \<Rightarrow> string" where
  "decimal n =
     (if n < 10 then [''0123456789'' ! n]
      else decimal (n div 10) @ [''0123456789'' ! (n mod 10)])"

definition format_0d :: "nat \<Rightarrow> nat \<Rightarrow> string" where
  "format_0d width i = replicate (width - length (decimal i)) (CHR ''0'') @ decimal i"

text \<open>A \<open>for\<close> loop (or a list comprehension) whose body draws from the random source
  and yields one element per iteration: the elements in order, and the position after the
  last iteration.\<close>

fun for_each :: "('a \<Rightarrow> nat \<Rightarrow> 'b \<times> nat) \<Rightarrow> 'a list \<Rightarrow> nat \<Rightarrow> 'b list \<times> nat" where
  "for_each body [] p = ([], p)"
| "for_each body (x # xs) p =
     (let (y, p1) = body x p;
          (ys, p2) = for_each body xs p1
      in (y # ys, p2))"

text \<open>The position at which each iteration of such a loop starts drawing.\<close>

fun draw_positions :: "('a \<Rightarrow> nat \<Rightarrow> 'b \<times> nat) \<Rightarrow> 'a list \<Rightarrow> nat \<Rightarrow> nat list" where
  "draw_positions body [] p = []"
| "draw_positions body (x # xs) p = p # draw_positions body xs (snd (body x p))"

text \<open>The same loop with a body that may raise: the first exception ends the loop.\<close>

fun for_each_try ::
  "('a \<Rightarrow> nat \<Rightarrow> py_exception + 'b \<times> nat) \<Rightarrow> 'a list \<Rightarrow> nat \<Rightarrow> py_exception + 'b list \<times> nat" where
  "for_each_try body [] p = Inr ([], p)"
| "for_each_try body (x # xs) p =
     (case body x p of
        Inl e \<Rightarrow> Inl e
      | Inr (y, p1) \<Rightarrow>
          (case for_each_try body xs p1 of
             Inl e \<Rightarrow> Inl e
           | Inr (ys, p2) \<Rightarrow> Inr (y # ys, p2)))"

subsection \<open>The generator object and its timestamp series\<close>

record SmartCityDataGenerator =
  start_time :: datetime
  end_time :: datetime

text \<open>\<open>__init__\<close>: the clock is read twice, once for each bound of the window; then the
  output directory is created.\<close>

definition init :: "environment \<Rightarrow> py_exception + SmartCityDataGenerator" where
  "init env =
     (case datetime_add (now_first env) (- timedelta_days NUM_DAYS) of
        Inl e \<Rightarrow> Inl e
      | Inr start \<Rightarrow>
          (let self = \<lparr>start_time = start, end_time = now_second env\<rparr>
           in case mkdir_raises env of Some e \<Rightarrow> Inl e | None \<Rightarrow> Inr self))"

text \<open>The \<open>while\<close> loop of \<open>generate_timestamps\<close>. Every iteration builds the
  \<open>timedelta\<close> and adds it to \<open>current\<close>; either of the two may raise. The loop does
  not return when the \<open>timedelta\<close> is zero and \<open>current\<close> is before the end.\<close>

partial_function (option) timestamps_loop ::
  "datetime \<Rightarrow> real \<Rightarrow> datetime list \<Rightarrow> datetime \<Rightarrow> (py_exception + datetime list) option" where
  "timestamps_loop end_t interval_minutes timestamps current =
     (if current < end_t
      then (case timedelta_minutes interval_minutes of
              Inl e \<Rightarrow> Some (Inl e)
            | Inr step \<Rightarrow>
                (case datetime_add current step of
                   Inl e \<Rightarrow> Some (Inl e)
                 | Inr next_t \<Rightarrow>
                     timestamps_loop end_t interval_minutes (timestamps @ [current]) next_t))
      else Some (Inr timestamps))"

declare timestamps_loop.simps [code]

definition generate_timestamps ::
  "SmartCityDataGenerator \<Rightarrow> real \<Rightarrow> (py_exception + datetime list) option" where
  "generate_timestamps self interval_minutes =
     timestamps_loop (end_time self) interval_minutes [] (start_time self)"

text \<open>The series in closed form: the number of instants \<open>s\<close>, \<open>s + d\<close>, ...
  before \<open>e\<close>, and the list of them.\<close>

definition series_count :: "datetime \<Rightarrow> datetime \<Rightarrow> timedelta \<Rightarrow> nat" where
  "series_count s e d = nat ((e - s + d - 1) div d)"

definition series :: "datetime \<Rightarrow> datetime \<Rightarrow> timedelta \<Rightarrow> datetime list" where
  "series s e d = map (\<lambda>k. s + int k * d) [0..<series_count s e d]"

text \<open>The step after the last instant of the series leaves the range of
  \<open>datetime\<close>.\<close>

definition series_overflows :: "datetime \<Rightarrow> datetime \<Rightarrow> timedelta \<Rightarrow> bool" where
  "series_overflows s e d \<longleftrightarrow> s < e \<and> datetime_max < s + int (series_count s e d) * d"

subsection \<open>Traffic sensors\<close>

record traffic_sensor =
  sensor_id :: string
  lat :: real
  lon :: real
  road_type :: string

record traffic_row =
  tr_sensor_id :: string
  tr_timestamp :: datetime
  tr_location_lat :: real
  tr_location_lon :: real
  vehicle_count :: int
  avg_speed :: real
  congestion_level :: string
  tr_road_type :: string

text \<open>One element of the comprehension that builds \<open>sensor_locations\<close>.\<close>

definition traffic_sensor_location :: "random_source \<Rightarrow> nat \<Rightarrow> nat \<Rightarrow> traffic_sensor \<times> nat" where
  "traffic_sensor_location rng i p =
     (let (la, p1) = np_random_uniform rng CITY_LAT_MIN CITY_LAT_MAX p;
          (lo, p2) = np_random_uniform rng CITY_LON_MIN CITY_LON_MAX p1;
          (rt, p3) = np_random_choice rng [''highway'', ''arterial'', ''residential'', ''commercial''] p2
      in (\<lparr>sensor_id = ''TRAFFIC_'' @ format_0d 3 i, lat = la, lon = lo, road_type = rt\<rparr>, p3))"

text \<open>The body of the two nested loops of \<open>generate_traffic_sensors\<close>: the record
  appended for one timestamp and one sensor.\<close>

definition traffic_reading ::
  "random_source \<Rightarrow> datetime \<Rightarrow> traffic_sensor \<Rightarrow> nat \<Rightarrow> traffic_row \<times> nat" where
  "traffic_reading rng timestamp sensor p =
     (let h = hour timestamp;
          is_rush_hour = (7 \<le> h \<and> h \<le> 9) \<or> (17 \<le> h \<and> h \<le> 19);
          is_weekend = (weekday timestamp \<ge> 5);
          base_count = (if road_type sensor = ''highway'' then 30 else 15 :: int);
          (count, speed, congestion, p2) =
            (if is_rush_hour \<and> \<not> is_weekend then
               (let (x, p1) = np_random_normal rng (of_int (base_count * 2)) (of_int base_count * 0.3) p;
                    count = py_int x;
                    (y, p2) = np_random_normal rng 25 10 p1;
                    speed = max 10 y;
                    congestion = (if of_int count > of_int base_count * (1.5 :: real)
                                  then ''high'' else ''medium'')
                in (count, speed, congestion, p2))
             else
               (let (x, p1) = np_random_normal rng (of_int base_count) (of_int base_count * 0.4) p;
                    count = py_int x;
                    (speed, p2) = np_random_normal rng 50 15 p1;
                    congestion = (if of_int count < of_int base_count * (0.7 :: real)
                                  then ''low'' else ''medium'')
                in (count, speed, congestion, p2)))
      in (\<lparr>tr_sensor_id = sensor_id sensor,
           tr_timestamp = timestamp,
           tr_location_lat = lat sensor,
           tr_location_lon = lon sensor,
           vehicle_count = max 0 count,
           avg_speed = max 5 speed,
           congestion_level = congestion,
           tr_road_type = road_type sensor\<rparr>, p2))"

text \<open>The loops over \<open>timestamps\<close> and \<open>sensor_locations\<close> that fill
  \<open>traffic_data\<close>.\<close>

definition traffic_data ::
  "random_source \<Rightarrow> datetime list \<Rightarrow> traffic_sensor list \<Rightarrow> nat \<Rightarrow> traffic_row list \<times> nat" where
  "traffic_data rng timestamps sensor_locations p =
     (let (blocks, p1) =
            for_each (\<lambda>timestamp. for_each (traffic_reading rng timestamp) sensor_locations)
              timestamps p
      in (concat blocks, p1))"

text \<open>\<open>generate_traffic_sensors\<close>: the table handed to \<open>to_csv\<close>, unless the
  writer raises.\<close>

definition generate_traffic_sensors ::
  "environment \<Rightarrow> SmartCityDataGenerator \<Rightarrow> random_source \<Rightarrow> nat \<Rightarrow>
     (py_exception + traffic_row list \<times> nat) option" where
  "generate_traffic_sensors env self rng p =
     (let (sensor_locations, p1) = for_each (traffic_sensor_location rng) [1..<51] p
      in case generate_timestamps self 5 of
           None \<Rightarrow> None
         | Some (Inl e) \<Rightarrow> Some (Inl e)
         | Some (Inr timestamps) \<Rightarrow>
             (let (rows, p2) = traffic_data rng timestamps sensor_locations p1
              in case write_raises env ''traffic_sensors.csv'' of
                   Some e \<Rightarrow> Some (Inl e)
                 | None \<Rightarrow> Some (Inr (rows, p2))))"

subsection \<open>Air quality monitors\<close>

record monitor =
  m_sensor_id :: string
  m_lat :: real
  m_lon :: real

record air_quality_row =
  aq_sensor_id :: string
  aq_timestamp :: datetime
  aq_location_lat :: real
  aq_location_lon :: real
  pm25 :: real
  pm10 :: real
  no2 :: real
  co :: real
  aq_temperature :: real
  aq_humidity :: real

definition monitor_location :: "random_source \<Rightarrow> nat \<Rightarrow> nat \<Rightarrow> monitor \<times> nat" where
  "monitor_location rng i p =
     (let (la, p1) = np_random_uniform rng CITY_LAT_MIN CITY_LAT_MAX p;
          (lo, p2) = np_random_uniform rng CITY_LON_MIN CITY_LON_MAX p1
      in (\<lparr>m_sensor_id = ''AQ_'' @ format_0d 3 i, m_lat = la, m_lon = lo\<rparr>, p2))"

definition air_quality_reading ::
  "random_source \<Rightarrow> datetime \<Rightarrow> monitor \<Rightarrow> nat \<Rightarrow> air_quality_row \<times> nat" where
  "air_quality_reading rng timestamp mon p =
     (let h = hour timestamp;
          is_rush_hour = (7 \<le> h \<and> h \<le> 9) \<or> (17 \<le> h \<and> h \<le> 19);
          pollution_factor = (if is_rush_hour then 1.3 else 1.0 :: real);
          (x1, p1) = np_random_normal rng (25 * pollution_factor) 8 p;
          (x2, p2) = np_random_normal rng (40 * pollution_factor) 12 p1;
          (x3, p3) = np_random_normal rng (30 * pollution_factor) 10 p2;
          (x4, p4) = np_random_normal rng (1.2 * pollution_factor) 0.4 p3;
          (x5, p5) = np_random_normal rng 20 8 p4;
          (x6, p6) = np_random_uniform rng 30 80 p5
      in (\<lparr>aq_sensor_id = m_sensor_id mon,
           aq_timestamp = timestamp,
           aq_location_lat = m_lat mon,
           aq_location_lon = m_lon mon,
           pm25 = max 0 x1,
           pm10 = max 0 x2,
           no2 = max 0 x3,
           co = max 0 x4,
           aq_temperature = x5,
           aq_humidity = x6\<rparr>, p6))"

definition air_quality_data ::
  "random_source \<Rightarrow> datetime list \<Rightarrow> monitor list \<Rightarrow> nat \<Rightarrow> air_quality_row list \<times> nat" where
  "air_quality_data rng timestamps monitor_locations p =
     (let (blocks, p1) =
            for_each (\<lambda>timestamp. for_each (air_quality_reading rng timestamp) monitor_locations)
              timestamps p
      in (concat blocks, p1))"

definition generate_air_quality_data ::
  "environment \<Rightarrow> SmartCityDataGenerator \<Rightarrow> random_source \<Rightarrow> nat \<Rightarrow>
     (py_exception + air_quality_row list \<times> nat) option" where
  "generate_air_quality_data env self rng p =
     (let (monitor_locations, p1) = for_each (monitor_location rng) [1..<21] p
      in case generate_timestamps self 15 of
           None \<Rightarrow> None
         | Some (Inl e) \<Rightarrow> Some (Inl e)
         | Some (Inr timestamps) \<Rightarrow>
             (let (rows, p2) = air_quality_data rng timestamps monitor_locations p1
              in case write_raises env ''air_quality.json'' of
                   Some e \<Rightarrow> Some (Inl e)
                 | None \<Rightarrow> Some (Inr (rows, p2))))"

subsection \<open>Weather stations\<close>

record station =
  station_id :: string
  s_lat :: real
  s_lon :: real

record weather_row =
  w_station_id :: string
  w_timestamp :: datetime
  w_location_lat :: real
  w_location_lon :: real
  temperature :: real
  humidity :: real
  wind_speed :: real
  wind_direction :: real
  precipitation :: real
  pressure :: real

definition station_location :: "random_source \<Rightarrow> nat \<Rightarrow> nat \<Rightarrow> station \<times> nat" where
  "station_location rng i p =
     (let (la, p1) = np_random_uniform rng CITY_LAT_MIN CITY_LAT_MAX p;
          (lo, p2) = np_random_uniform rng CITY_LON_MIN CITY_LON_MAX p1
      in (\<lparr>station_id = ''WEATHER_'' @ format_0d 3 i, s_lat = la, s_lon = lo\<rparr>, p2))"

definition base_temp :: real where
  "base_temp = 20"

text \<open>The body of the inner loop: \<open>day_temp\<close> is a variable of the enclosing loop. In the
  conditional expression for the precipitation the condition is evaluated first.\<close>

definition weather_reading ::
  "random_source \<Rightarrow> datetime \<Rightarrow> real \<Rightarrow> station \<Rightarrow> nat \<Rightarrow> weather_row \<times> nat" where
  "weather_reading rng timestamp day_temp st p =
     (let (x1, p1) = np_random_normal rng 0 1 p;
          (x2, p2) = np_random_normal rng 60 15 p1;
          (x3, p3) = np_random_exponential rng 8 p2;
          (x4, p4) = np_random_uniform rng 0 360 p3;
          (u, p5) = np_random_random rng p4;
          (rain, p6) = (if u < 0.1
                        then (let (x5, p6) = np_random_exponential rng 0.5 p5 in (max 0 x5, p6))
                        else (0, p5));
          (x7, p7) = np_random_normal rng 1013.25 10 p6
      in (\<lparr>w_station_id = station_id st,
           w_timestamp = timestamp,
           w_location_lat = s_lat st,
           w_location_lon = s_lon st,
           temperature = day_temp + x1,
           humidity = max 20 (min 100 x2),
           wind_speed = max 0 x3,
           wind_direction = x4,
           precipitation = rain,
           pressure = x7\<rparr>, p7))"

text \<open>The body of the outer loop: \<open>day_temp\<close> is computed, then the records of all
  stations at this timestamp are appended.\<close>

definition weather_at ::
  "random_source \<Rightarrow> station list \<Rightarrow> datetime \<Rightarrow> nat \<Rightarrow> weather_row list \<times> nat" where
  "weather_at rng station_locations timestamp p =
     (let hour_factor = sin (of_int (hour timestamp - 6) * pi / 12) * 0.3;
          (x, p1) = np_random_normal rng 0 3 p;
          day_temp = base_temp + x + hour_factor * 5
      in for_each (weather_reading rng timestamp day_temp) station_locations p1)"

definition weather_data ::
  "random_source \<Rightarrow> datetime list \<Rightarrow> station list \<Rightarrow> nat \<Rightarrow> weather_row list \<times> nat" where
  "weather_data rng timestamps station_locations p =
     (let (blocks, p1) = for_each (weather_at rng station_locations) timestamps p
      in (concat blocks, p1))"

definition generate_weather_data ::
  "environment \<Rightarrow> SmartCityDataGenerator \<Rightarrow> random_source \<Rightarrow> nat \<Rightarrow>
     (py_exception + weather_row list \<times> nat) option" where
  "generate_weather_data env self rng p =
     (let (station_locations, p1) = for_each (station_location rng) [1..<11] p
      in case generate_timestamps self 30 of
           None \<Rightarrow> None
         | Some (Inl e) \<Rightarrow> Some (Inl e)
         | Some (Inr timestamps) \<Rightarrow>
             (let (rows, p2) = weather_data rng timestamps station_locations p1
              in case write_raises env ''weather_data.parquet'' of
                   Some e \<Rightarrow> Some (Inl e)
                 | None \<Rightarrow> Some (Inr (rows, p2))))"

subsection \<open>Energy meters\<close>

record meter =
  meter_id :: string
  e_lat :: real
  e_lon :: real
  building_type :: string

record energy_row =
  en_meter_id :: string
  en_timestamp :: datetime
  en_building_type :: string
  en_location_lat :: real
  en_location_lon :: real
  power_consumption :: real
  voltage :: real
  current :: real
  power_factor :: real

definition building_types :: "string list" where
  "building_types = [''residential'', ''commercial'', ''industrial'', ''office'', ''retail'']"

definition meter_location :: "random_source \<Rightarrow> nat \<Rightarrow> nat \<Rightarrow> meter \<times> nat" where
  "meter_location rng i p =
     (let (la, p1) = np_random_uniform rng CITY_LAT_MIN CITY_LAT_MAX p;
          (lo, p2) = np_random_uniform rng CITY_LON_MIN CITY_LON_MAX p1;
          (bt, p3) = np_random_choice rng building_types p2
      in (\<lparr>meter_id = ''ENERGY_'' @ format_0d 4 i, e_lat = la, e_lon = lo, building_type = bt\<rparr>, p3))"

text \<open>The dictionary of base consumptions; a key that is not in it raises \<open>KeyError\<close>.\<close>

definition base_consumption :: "string \<rightharpoonup> real" where
  "base_consumption =
     map_of [(''residential'', 3.0), (''commercial'', 15.0), (''industrial'', 50.0),
             (''office'', 20.0), (''retail'', 25.0)]"

text \<open>The adjustment for time patterns (the \<open>if\<close> statement that sets
  \<open>consumption_factor\<close>).\<close>

definition consumption_factor :: "string \<Rightarrow> int \<Rightarrow> bool \<Rightarrow> bool \<Rightarrow> real" where
  "consumption_factor bt h is_business_hours is_weekend =
     (if bt \<in> set [''commercial'', ''office'', ''retail'']
      then (if is_business_hours \<and> \<not> is_weekend then 1.5 else 0.3)
      else (if bt = ''industrial'' then 1.0 else (if 18 \<le> h \<and> h \<le> 22 then 1.2 else 0.8)))"

text \<open>The body of the nested loops. The division of two Python floats raises
  \<open>ZeroDivisionError\<close> when the divisor is zero.\<close>

definition energy_reading ::
  "random_source \<Rightarrow> datetime \<Rightarrow> meter \<Rightarrow> nat \<Rightarrow> py_exception + energy_row \<times> nat" where
  "energy_reading rng timestamp mt p =
     (let h = hour timestamp;
          is_business_hours = (8 \<le> h \<and> h \<le> 18);
          is_weekend = (weekday timestamp \<ge> 5)
      in case base_consumption (building_type mt) of
           None \<Rightarrow> Inl KeyError
         | Some base \<Rightarrow>
             (let factor = consumption_factor (building_type mt) h is_business_hours is_weekend;
                  (u, p1) = np_random_uniform rng 0.7 1.3 p;
                  power = base * factor * u;
                  (volts, p2) = np_random_normal rng 240 5 p1
              in if volts = 0 then Inl ZeroDivisionError
                 else
                   (let amps = power / volts * 1000;
                        (pf, p3) = np_random_uniform rng 0.85 0.95 p2
                    in Inr (\<lparr>en_meter_id = meter_id mt,
                              en_timestamp = timestamp,
                              en_building_type = building_type mt,
                              en_location_lat = e_lat mt,
                              en_location_lon = e_lon mt,
                              power_consumption = power,
                              voltage = volts,
                              current = amps,
                              power_factor = pf\<rparr>, p3))))"

definition energy_data ::
  "random_source \<Rightarrow> datetime list \<Rightarrow> meter list \<Rightarrow> nat \<Rightarrow> py_exception + energy_row list \<times> nat" where
  "energy_data rng timestamps meter_locations p =
     (case for_each_try (\<lambda>timestamp. for_each_try (energy_reading rng timestamp) meter_locations)
             timestamps p of
        Inl e \<Rightarrow> Inl e
      | Inr (blocks, p1) \<Rightarrow> Inr (concat blocks, p1))"

definition generate_energy_data ::
  "environment \<Rightarrow> SmartCityDataGenerator \<Rightarrow> random_source \<Rightarrow> nat \<Rightarrow>
     (py_exception + energy_row list \<times> nat) option" where
  "generate_energy_data env self rng p =
     (let (meter_locations, p1) = for_each (meter_location rng) [1..<201] p
      in case generate_timestamps self 10 of
           None \<Rightarrow> None
         | Some (Inl e) \<Rightarrow> Some (Inl e)
         | Some (Inr timestamps) \<Rightarrow>
             (case energy_data rng timestamps meter_locations p1 of
                Inl e \<Rightarrow> Some (Inl e)
              | Inr (rows, p2) \<Rightarrow>
                  (case write_raises env ''energy_meters.csv'' of
                     Some e \<Rightarrow> Some (Inl e)
                   | None \<Rightarrow> Some (Inr (rows, p2)))))"

subsection \<open>City zones\<close>

record zone =
  zone_id :: string
  zone_name :: string
  zone_type :: string
  lat_min :: real
  lat_max :: real
  lon_min :: real
  lon_max :: real
  population :: int

definition zones_data :: "zone list" where
  "zones_data =
     [\<lparr>zone_id = ''ZONE_001'', zone_name = ''Downtown'', zone_type = ''commercial'',
       lat_min = 40.7200, lat_max = 40.7400, lon_min = - 74.0100, lon_max = - 73.9900,
       population = 25000\<rparr>,
      \<lparr>zone_id = ''ZONE_002'', zone_name = ''Financial District'', zone_type = ''commercial'',
       lat_min = 40.7000, lat_max = 40.7200, lon_min = - 74.0200, lon_max = - 74.0000,
       population = 15000\<rparr>,
      \<lparr>zone_id = ''ZONE_003'', zone_name = ''Residential North'', zone_type = ''residential'',
       lat_min = 40.7600, lat_max = 40.8000, lon_min = - 74.0000, lon_max = - 73.9800,
       population = 45000\<rparr>,
      \<lparr>zone_id = ''ZONE_004'', zone_name = ''Residential South'', zone_type = ''residential'',
       lat_min = 40.7000, lat_max = 40.7200, lon_min = - 73.9800, lon_max = - 73.9600,
       population = 38000\<rparr>,
      \<lparr>zone_id = ''ZONE_005'', zone_name = ''Industrial Park'', zone_type = ''industrial'',
       lat_min = 40.7400, lat_max = 40.7600, lon_min = - 74.0200, lon_max = - 74.0000,
       population = 5000\<rparr>,
      \<lparr>zone_id = ''ZONE_006'', zone_name = ''Tech Campus'', zone_type = ''commercial'',
       lat_min = 40.7600, lat_max = 40.7800, lon_min = - 73.9800, lon_max = - 73.9600,
       population = 12000\<rparr>,
      \<lparr>zone_id = ''ZONE_007'', zone_name = ''University Area'', zone_type = ''mixed'',
       lat_min = 40.7200, lat_max = 40.7400, lon_min = - 73.9600, lon_max = - 73.9400,
       population = 22000\<rparr>,
      \<lparr>zone_id = ''ZONE_008'', zone_name = ''Shopping District'', zone_type = ''retail'',
       lat_min = 40.7400, lat_max = 40.7600, lon_min = - 73.9600, lon_max = - 73.9400,
       population = 8000\<rparr>]"

definition generate_city_zones :: "environment \<Rightarrow> py_exception + zone list" where
  "generate_city_zones env =
     (case write_raises env ''city_zones.csv'' of
        Some e \<Rightarrow> Inl e
      | None \<Rightarrow> Inr zones_data)"

subsection \<open>Orchestration\<close>

record datasets =
  traffic_sensors :: "traffic_row list"
  air_quality :: "air_quality_row list"
  weather :: "weather_row list"
  energy_meters :: "energy_row list"
  city_zones :: "zone list"

text \<open>\<open>generate_all_data\<close>: the five generators in sequence; an exception raised by one
  of them leaves the function at once. (The report of the file sizes that follows is
  console output and is left out.)\<close>

definition generate_all_data ::
  "environment \<Rightarrow> SmartCityDataGenerator \<Rightarrow> random_source \<Rightarrow> nat \<Rightarrow>
     (py_exception + datasets) option" where
  "generate_all_data env self rng p =
     (case generate_traffic_sensors env self rng p of
        None \<Rightarrow> None
      | Some (Inl e) \<Rightarrow> Some (Inl e)
      | Some (Inr (t, p1)) \<Rightarrow>
     (case generate_air_quality_data env self rng p1 of
        None \<Rightarrow> None
      | Some (Inl e) \<Rightarrow> Some (Inl e)
      | Some (Inr (a, p2)) \<Rightarrow>
     (case generate_weather_data env self rng p2 of
        None \<Rightarrow> None
      | Some (Inl e) \<Rightarrow> Some (Inl e)
      | Some (Inr (w, p3)) \<Rightarrow>
     (case generate_energy_data env self rng p3 of
        None \<Rightarrow> None
      | Some (Inl e) \<Rightarrow> Some (Inl e)
      | Some (Inr (en, p4)) \<Rightarrow>
     (case generate_city_zones env of
        Inl e \<Rightarrow> Some (Inl e)
      | Inr z \<Rightarrow>
          Some (Inr \<lparr>traffic_sensors = t, air_quality = a, weather = w,
                     energy_meters = en, city_zones = z\<rparr>))))))"

text \<open>The body of the \<open>try\<close> statement of \<open>main\<close>.\<close>

definition main_try :: "environment \<Rightarrow> random_source \<Rightarrow> (py_exception + datasets) option" where
  "main_try env rng =
     (case init env of
        Inl e \<Rightarrow> Some (Inl e)
      | Inr generator \<Rightarrow> generate_all_data env generator rng 0)"

text \<open>\<open>main\<close>: \<open>Inr\<close> is the value returned, which \<open>exit(main())\<close> makes the exit code of
  the process; \<open>Inl\<close> is an exception that no \<open>except\<close> clause matches and that leaves
  \<open>main\<close>. The handler for \<open>ImportError\<close> only prints, so control reaches the
  \<open>return 0\<close> after the \<open>try\<close> statement; the handler for \<open>Exception\<close> returns 1.\<close>

definition main :: "environment \<Rightarrow> random_source \<Rightarrow> (py_exception + int) option" where
  "main env rng =
     (case main_try env rng of
        None \<Rightarrow> None
      | Some (Inr _) \<Rightarrow> Some (Inr 0)
      | Some (Inl e) \<Rightarrow>
          (if isinstance_ImportError e then Some (Inr 0)
           else if isinstance_Exception e then Some (Inr 1)
           else Some (Inl e)))"

subsection \<open>The rules as the specification words them\<close>

text \<open>The congestion level by the thresholds of the specification, from the branch
  taken (rush hour and not weekend, or not), the vehicle count and the base count.\<close>

definition congestion_spec :: "bool \<Rightarrow> real \<Rightarrow> real \<Rightarrow> string" where
  "congestion_spec rush_hour_and_not_weekend cnt base =
     (if rush_hour_and_not_weekend
      then (if cnt > 1.5 * base then ''high'' else ''medium'')
      else (if cnt < 0.7 * base then ''low'' else ''medium''))"

text \<open>The consumption factor by the table of the specification; it names five building
  types and no others.\<close>

definition consumption_factor_spec :: "string \<Rightarrow> bool \<Rightarrow> bool \<Rightarrow> int \<Rightarrow> real option" where
  "consumption_factor_spec bt business_hours weekend h =
     (if bt = ''commercial'' \<or> bt = ''office'' \<or> bt = ''retail''
        then Some (if business_hours \<and> \<not> weekend then 1.5 else 0.3)
      else if bt = ''industrial'' then Some 1.0
      else if bt = ''residential'' then Some (if 18 \<le> h \<and> h \<le> 22 then 1.2 else 0.8)
      else None)"

text \<open>The shared daily temperature of the specification, from the Normal(0,3) sample
  \<open>z\<close> and the hour of the day.\<close>

definition day_temp_spec :: "real \<Rightarrow> int \<Rightarrow> real" where
  "day_temp_spec z h = 20 + z + sin ((of_int h - 6) * pi / 12) * 0.3 * 5"

subsection \<open>Sample inputs\<close>

text \<open>2026-11-03T12:00:00, a Tuesday.\<close>

definition noon :: datetime where
  "noon = 63929304000000000"

text \<open>An environment in which both readings of the clock give the same instant and no
  call into the file system raises.\<close>

definition steady_environment :: environment where
  "steady_environment =
     \<lparr>now_first = noon, now_second = noon, mkdir_raises = None, write_raises = (\<lambda>f. None)\<rparr>"

text \<open>An environment in which the writer of the parquet file raises \<open>ImportError\<close>
  (pandas finds no usable parquet engine).\<close>

definition parquet_engine_missing :: environment where
  "parquet_engine_missing =
     \<lparr>now_first = noon, now_second = noon + 1, mkdir_raises = None,
      write_raises = (\<lambda>f. if f = ''weather_data.parquet'' then Some ImportError else None)\<rparr>"

definition week_before_noon :: SmartCityDataGenerator where
  "week_before_noon = \<lparr>start_time = noon - timedelta_days NUM_DAYS, end_time = noon\<rparr>"

text \<open>A random source whose raw draws are all zero, and one whose standard normal draws
  are all \<open>-48\<close>, so that every Normal(240, 5) sample is zero.\<close>

definition zero_source :: random_source where
  "zero_source =
     \<lparr>standard_normal = (\<lambda>k. 0), random_sample = (\<lambda>k. 0),
      standard_exponential = (\<lambda>k. 0), randint = (\<lambda>k. 0)\<rparr>"

definition zero_volt_source :: random_source where
  "zero_volt_source =
     \<lparr>standard_normal = (\<lambda>k. - 48), random_sample = (\<lambda>k. 0),
      standard_exponential = (\<lambda>k. 0), randint = (\<lambda>k. 0)\<rparr>"

definition highway_sensor :: traffic_sensor where
  "highway_sensor =
     \<lparr>sensor_id = ''TRAFFIC_001'', lat = 40.75, lon = - 74, road_type = ''highway''\<rparr>"

definition office_meter :: meter where
  "office_meter =
     \<lparr>meter_id = ''ENERGY_0001'', e_lat = 40.75, e_lon = - 74, building_type = ''office''\<rparr>"

section \<open>Properties\<close>

subsection \<open>Loops over the random source\<close>

lemma for_each_length: "length (fst (for_each body xs p)) = length xs"
  by (induction xs arbitrary: p) (simp_all add: split_beta)

lemma draw_positions_length: "length (draw_positions body xs p) = length xs"
  by (induction xs arbitrary: p) simp_all

lemma for_each_zip:
  "fst (for_each body xs p) = map (\<lambda>(x, q). fst (body x q)) (zip xs (draw_positions body xs p))"
  by (induction xs arbitrary: p) (simp_all add: split_beta)

lemma for_each_nth:
  "i < length xs \<Longrightarrow>
   fst (for_each body xs p) ! i = fst (body (xs ! i) (draw_positions body xs p ! i))"
  by (simp add: for_each_zip draw_positions_length)

lemma for_each_set:
  assumes "y \<in> set (fst (for_each body xs p))"
  shows "\<exists>x\<in>set xs. \<exists>q. y = fst (body x q)"
proof -
  from assms obtain i where "i < length xs" "y = fst (for_each body xs p) ! i"
    by (metis for_each_length in_set_conv_nth)
  then have "y = fst (body (xs ! i) (draw_positions body xs p ! i))"
    by (simp add: for_each_nth)
  with \<open>i < length xs\<close> show ?thesis
    by (metis nth_mem)
qed

lemma draw_positions_lower:
  assumes "\<And>x q. q < snd (body x q)"
  shows "k \<in> set (draw_positions body xs p) \<Longrightarrow> p \<le> k"
proof (induction xs arbitrary: p)
  case Nil
  then show ?case by simp
next
  case (Cons x xs)
  from Cons.prems have "k = p \<or> k \<in> set (draw_positions body xs (snd (body x p)))"
    by simp
  then show ?case
  proof
    assume "k = p" then show ?thesis by simp
  next
    assume "k \<in> set (draw_positions body xs (snd (body x p)))"
    then have "snd (body x p) \<le> k" by (rule Cons.IH)
    moreover have "p < snd (body x p)" by (rule assms)
    ultimately show ?thesis by simp
  qed
qed

lemma draw_positions_distinct:
  assumes "\<And>x q. q < snd (body x q)"
  shows "distinct (draw_positions body xs p)"
proof (induction xs arbitrary: p)
  case Nil
  then show ?case by simp
next
  case (Cons x xs)
  have "p \<notin> set (draw_positions body xs (snd (body x p)))"
  proof
    assume "p \<in> set (draw_positions body xs (snd (body x p)))"
    then have "snd (body x p) \<le> p" by (rule draw_positions_lower [OF assms])
    moreover have "p < snd (body x p)" by (rule assms)
    ultimately show False by simp
  qed
  with Cons.IH show ?case by simp
qed

lemma concat_length_uniform:
  "(\<And>b. b \<in> set bs \<Longrightarrow> length b = n) \<Longrightarrow> length (concat bs) = length bs * n"
  by (induction bs) simp_all

lemma concat_nth_uniform:
  "(\<And>b. b \<in> set bs \<Longrightarrow> length b = n) \<Longrightarrow> i < length bs \<Longrightarrow> j < n \<Longrightarrow>
   concat bs ! (i * n + j) = bs ! i ! j"
proof (induction bs arbitrary: i)
  case Nil
  then show ?case by simp
next
  case (Cons b bs)
  have len: "length b = n" using Cons.prems(1) by simp
  show ?case
  proof (cases i)
    case 0
    then show ?thesis using len Cons.prems(3) by (simp add: nth_append)
  next
    case (Suc i')
    then have "concat bs ! (i' * n + j) = bs ! i' ! j"
      using Cons.prems by (intro Cons.IH) simp_all
    then show ?thesis using len Suc by (simp add: nth_append)
  qed
qed

lemma for_each_try_length:
  "for_each_try body xs p = Inr (ys, p') \<Longrightarrow> length ys = length xs"
  by (induction xs arbitrary: p ys p') (auto split: sum.splits prod.splits)

lemma for_each_try_set:
  "for_each_try body xs p = Inr (ys, p') \<Longrightarrow> y \<in> set ys \<Longrightarrow>
   \<exists>x\<in>set xs. \<exists>q q'. body x q = Inr (y, q')"
proof (induction xs arbitrary: p ys p')
  case Nil
  then show ?case by simp
next
  case (Cons x xs)
  from Cons.prems(1) obtain z p1 zs where
    b: "body x p = Inr (z, p1)" and r: "for_each_try body xs p1 = Inr (zs, p')" and ys: "ys = z # zs"
    by (auto split: sum.splits prod.splits)
  from Cons.prems(2) ys have "y = z \<or> y \<in> set zs" by auto
  then show ?case
  proof
    assume "y = z"
    with b show ?thesis by auto
  next
    assume "y \<in> set zs"
    from Cons.IH [OF r this] show ?thesis by auto
  qed
qed

lemma for_each_try_returns:
  "(\<And>x q. x \<in> set xs \<Longrightarrow> \<exists>r. body x q = Inr r) \<Longrightarrow> \<exists>r. for_each_try body xs p = Inr r"
proof (induction xs arbitrary: p)
  case Nil
  then show ?case by simp
next
  case (Cons x xs)
  obtain y p1 where b: "body x p = Inr (y, p1)"
    using Cons.prems [of x p] by auto
  obtain ys p2 where "for_each_try body xs p1 = Inr (ys, p2)"
    using Cons.IH [of p1] Cons.prems by auto
  with b show ?case by simp
qed


subsection \<open>The timestamp series\<close>

lemma series_count_stop: "0 < d \<Longrightarrow> e \<le> s \<Longrightarrow> series_count s e d = 0"
proof -
  assume "0 < d" "e \<le> s"
  then have "(e - s + d - 1) div d \<le> (d - 1) div d"
    by (intro zdiv_mono1) simp_all
  also have "(d - 1) div d = 0"
    using \<open>0 < d\<close> by simp
  finally show ?thesis
    by (simp add: series_count_def)
qed

lemma series_count_step:
  assumes "0 < d" "s < e"
  shows "series_count s e d = Suc (series_count (s + d) e d)"
proof -
  have "e - s + d - 1 = d + (e - (s + d) + d - 1)"
    by simp
  then have "(e - s + d - 1) div d = (e - (s + d) + d - 1) div d + 1"
    using assms by (simp only: div_add_self1 [of d])
  moreover have "0 \<le> (e - (s + d) + d - 1) div d"
    using assms by (simp add: pos_imp_zdiv_nonneg_iff)
  ultimately show ?thesis
    by (simp add: series_count_def nat_add_distrib)
qed

lemma series_stop: "0 < d \<Longrightarrow> e \<le> s \<Longrightarrow> series s e d = []"
  by (simp add: series_def series_count_stop)

lemma series_step:
  assumes "0 < d" "s < e"
  shows "series s e d = s # series (s + d) e d"
proof -
  have "map (\<lambda>k. s + int k * d) [0..<Suc n] = s # map (\<lambda>k. s + d + int k * d) [0..<n]" for n
    by (simp add: upt_conv_Cons map_Suc_upt [symmetric] algebra_simps del: upt_Suc)
  then show ?thesis
    using series_count_step [OF assms] by (simp add: series_def)
qed

lemma series_length: "length (series s e d) = series_count s e d"
  by (simp add: series_def)


lemma series_bound:
  assumes "0 < d" "k < series_count s e d"
  shows "s + int k * d < e"
proof -
  have "int k + 1 \<le> (e - s + d - 1) div d"
    using assms(2) by (simp add: series_count_def)
  then have "(int k + 1) * d \<le> (e - s + d - 1) div d * d"
    using assms(1) by (intro mult_right_mono) simp_all
  also have "\<dots> \<le> e - s + d - 1"
  proof -
    have "(e - s + d - 1) div d * d = (e - s + d - 1) - (e - s + d - 1) mod d"
      by (simp add: minus_mod_eq_div_mult)
    moreover have "0 \<le> (e - s + d - 1) mod d"
      using assms(1) by simp
    ultimately show ?thesis by simp
  qed
  finally show ?thesis
    by (simp add: algebra_simps)
qed






lemma timedelta_minutes_whole:
  "timedelta_minutes 1 = Inr 60000000"
  "timedelta_minutes 5 = Inr 300000000"
  "timedelta_minutes 10 = Inr 600000000"
  "timedelta_minutes 15 = Inr 900000000"
  "timedelta_minutes 30 = Inr 1800000000"
  by (simp_all add: timedelta_minutes_def py_round_half_even_def timedelta_min_def
      timedelta_max_def Let_def)

lemma series_overflows_step:
  assumes "0 < d" "s < e" "s + d \<le> datetime_max"
  shows "series_overflows s e d = series_overflows (s + d) e d"
proof (cases "s + d < e")
  case True
  then show ?thesis
    using series_count_step [OF assms(1,2)]
    by (simp add: series_overflows_def assms(2) algebra_simps)
next
  case False
  then have "series_count (s + d) e d = 0"
    using assms(1) by (simp add: series_count_stop)
  then show ?thesis
    using False series_count_step [OF assms(1,2)] assms
    by (simp add: series_overflows_def)
qed

lemma series_overflows_first:
  assumes "0 < d" "s < e" "datetime_max < s + d"
  shows "series_overflows s e d"
proof -
  have "1 \<le> int (series_count s e d)"
    using series_count_step [OF assms(1,2)] by simp
  then have "1 * d \<le> int (series_count s e d) * d"
    using assms(1) by (intro mult_right_mono) simp_all
  then have "s + d \<le> s + int (series_count s e d) * d"
    by (simp only: mult_1 add_left_mono)
  with assms(2,3) show ?thesis
    unfolding series_overflows_def by linarith
qed

lemma timestamps_loop_series:
  assumes "timedelta_minutes x = Inr d" "0 < d"
  shows "0 \<le> cur \<Longrightarrow>
         timestamps_loop e x acc cur =
           Some (if series_overflows cur e d then Inl OverflowError
                 else Inr (acc @ series cur e d))"
proof (induction "nat (e - cur)" arbitrary: cur acc rule: less_induct)
  case less
  show ?case
  proof (cases "cur < e")
    case False
    then show ?thesis
      using assms(2) by (subst timestamps_loop.simps) (simp add: series_stop series_overflows_def)
  next
    case True
    show ?thesis
    proof (cases "datetime_max < cur + d")
      case over: True
      then have "datetime_add cur d = Inl OverflowError"
        by (simp add: datetime_add_def)
      moreover have "series_overflows cur e d"
        using assms(2) True over by (rule series_overflows_first)
      ultimately show ?thesis
        using True assms(1) by (subst timestamps_loop.simps) simp
    next
      case False
      then have add: "datetime_add cur d = Inr (cur + d)"
        using less.prems assms(2) by (simp add: datetime_add_def)
      have "nat (e - (cur + d)) < nat (e - cur)"
        using True assms(2) by simp
      moreover have "0 \<le> cur + d"
        using less.prems assms(2) by simp
      ultimately have "timestamps_loop e x (acc @ [cur]) (cur + d) =
          Some (if series_overflows (cur + d) e d then Inl OverflowError
                else Inr ((acc @ [cur]) @ series (cur + d) e d))"
        by (rule less.hyps)
      moreover have "series_overflows cur e d = series_overflows (cur + d) e d"
        using assms(2) True False by (intro series_overflows_step) simp_all
      ultimately show ?thesis
        using True assms add
        by (subst timestamps_loop.simps) (simp add: series_step)
    qed
  qed
qed





lemma generate_timestamps_series:
  assumes "timedelta_minutes m = Inr d" "0 < d" "0 \<le> start_time self"
    "\<not> series_overflows (start_time self) (end_time self) d"
  shows "generate_timestamps self m = Some (Inr (series (start_time self) (end_time self) d))"
  using timestamps_loop_series [OF assms(1-3), of "end_time self" "[]"] assms(4)
  by (simp add: generate_timestamps_def)






subsection \<open>The seven-day window\<close>

lemma series_within_range:
  assumes "0 < d" "e + d \<le> datetime_max"
  shows "\<not> series_overflows s e d"
proof
  assume o: "series_overflows s e d"
  then have lt: "s < e" and big: "datetime_max < s + int (series_count s e d) * d"
    by (simp_all add: series_overflows_def)
  obtain n where n: "series_count s e d = Suc n"
    using series_count_step [OF assms(1) lt] by blast
  then have "s + int n * d < e"
    using series_bound [OF assms(1), of n s e] by simp
  then have "s + int (series_count s e d) * d < e + d"
    by (simp add: n algebra_simps)
  with big assms(2) show False by simp
qed

text \<open>With a clock that reads a valid instant at least seven days after
  \<open>datetime.min\<close> the constructor raises no \<open>OverflowError\<close>.\<close>

lemma init_in_range:
  assumes "mkdir_raises env = None" "timedelta_days NUM_DAYS \<le> now_first env"
    "now_first env \<le> datetime_max"
  shows "init env =
     Inr \<lparr>start_time = now_first env - timedelta_days NUM_DAYS, end_time = now_second env\<rparr>"
  using assms
  by (simp add: init_def datetime_add_def timedelta_days_def NUM_DAYS_def)

lemma generate_timestamps_length:
  assumes "timedelta_minutes m = Inr d" "0 < d" "0 \<le> start_time self"
    "\<not> series_overflows (start_time self) (end_time self) d"
  shows "map_option (map_sum id length) (generate_timestamps self m) =
     Some (Inr (series_count (start_time self) (end_time self) d))"
  by (simp add: generate_timestamps_series [OF assms] series_length)

lemma window_lengths:
  assumes "0 \<le> start_time self" "end_time self + 1800000000 \<le> datetime_max"
  shows
    "map_option (map_sum id length) (generate_timestamps self 5) =
       Some (Inr (series_count (start_time self) (end_time self) 300000000))"
    "map_option (map_sum id length) (generate_timestamps self 15) =
       Some (Inr (series_count (start_time self) (end_time self) 900000000))"
    "map_option (map_sum id length) (generate_timestamps self 30) =
       Some (Inr (series_count (start_time self) (end_time self) 1800000000))"
    "map_option (map_sum id length) (generate_timestamps self 10) =
       Some (Inr (series_count (start_time self) (end_time self) 600000000))"
proof -
  have o: "\<not> series_overflows (start_time self) (end_time self) d"
    if "0 < d" "d \<le> 1800000000" for d
    using that assms(2) by (intro series_within_range) simp_all
  show "map_option (map_sum id length) (generate_timestamps self 5) =
       Some (Inr (series_count (start_time self) (end_time self) 300000000))"
    by (rule generate_timestamps_length [OF timedelta_minutes_whole(2) _ assms(1) o]) simp_all
  show "map_option (map_sum id length) (generate_timestamps self 15) =
       Some (Inr (series_count (start_time self) (end_time self) 900000000))"
    by (rule generate_timestamps_length [OF timedelta_minutes_whole(4) _ assms(1) o]) simp_all
  show "map_option (map_sum id length) (generate_timestamps self 30) =
       Some (Inr (series_count (start_time self) (end_time self) 1800000000))"
    by (rule generate_timestamps_length [OF timedelta_minutes_whole(5) _ assms(1) o]) simp_all
  show "map_option (map_sum id length) (generate_timestamps self 10) =
       Some (Inr (series_count (start_time self) (end_time self) 600000000))"
    by (rule generate_timestamps_length [OF timedelta_minutes_whole(3) _ assms(1) o]) simp_all
qed

text \<open>The number of timestamps of a seven-day window: 2016, 672, 336 and 1008 when both
  readings of the clock in the constructor give the same instant, and one more in each
  series when the second reading is later (by at most five minutes).\<close>

lemma seven_day_window_same_reading:
  assumes "mkdir_raises env = None" "now_second env = now_first env"
    and "timedelta_days NUM_DAYS \<le> now_first env" "now_first env + 1800000000 \<le> datetime_max"
  shows "\<exists>self. init env = Inr self \<and>
           map_option (map_sum id length) (generate_timestamps self 5) = Some (Inr 2016) \<and>
           map_option (map_sum id length) (generate_timestamps self 15) = Some (Inr 672) \<and>
           map_option (map_sum id length) (generate_timestamps self 30) = Some (Inr 336) \<and>
           map_option (map_sum id length) (generate_timestamps self 10) = Some (Inr 1008)"
proof -
  let ?self = "\<lparr>start_time = now_first env - timedelta_days NUM_DAYS, end_time = now_second env\<rparr>"
  have i: "init env = Inr ?self"
    using assms(1,3,4) by (intro init_in_range) simp_all
  have s: "0 \<le> start_time ?self"
    using assms(3) by simp
  have r: "end_time ?self + 1800000000 \<le> datetime_max"
    using assms(2,4) by simp
  have "map_option (map_sum id length) (generate_timestamps ?self 5) = Some (Inr 2016)"
    "map_option (map_sum id length) (generate_timestamps ?self 15) = Some (Inr 672)"
    "map_option (map_sum id length) (generate_timestamps ?self 30) = Some (Inr 336)"
    "map_option (map_sum id length) (generate_timestamps ?self 10) = Some (Inr 1008)"
    using assms(2) window_lengths [OF s r]
    by (simp_all add: series_count_def timedelta_days_def NUM_DAYS_def)
  with i show ?thesis by blast
qed

lemma seven_day_window_later_reading:
  assumes "mkdir_raises env = None" "now_first env < now_second env"
    "now_second env \<le> now_first env + 300000000"
    and "timedelta_days NUM_DAYS \<le> now_first env" "now_second env + 1800000000 \<le> datetime_max"
  shows "\<exists>self. init env = Inr self \<and>
           map_option (map_sum id length) (generate_timestamps self 5) = Some (Inr 2017) \<and>
           map_option (map_sum id length) (generate_timestamps self 15) = Some (Inr 673) \<and>
           map_option (map_sum id length) (generate_timestamps self 30) = Some (Inr 337) \<and>
           map_option (map_sum id length) (generate_timestamps self 10) = Some (Inr 1009)"
proof -
  let ?self = "\<lparr>start_time = now_first env - timedelta_days NUM_DAYS, end_time = now_second env\<rparr>"
  define x where "x = now_second env - now_first env"
  have x: "0 < x" "x \<le> 300000000" and e: "now_second env = now_first env + x"
    using assms by (simp_all add: x_def)
  have i: "init env = Inr ?self"
    using assms(1,2,4,5) by (intro init_in_range) simp_all
  have s: "0 \<le> start_time ?self"
    using assms(4) by simp
  have r: "end_time ?self + 1800000000 \<le> datetime_max"
    using assms(5) by simp
  have 1: "(605099999999 + x) div 300000000 = 2017" using x by simp
  have 2: "(605699999999 + x) div 900000000 = 673" using x by simp
  have 3: "(606599999999 + x) div 1800000000 = 337" using x by simp
  have 4: "(605399999999 + x) div 600000000 = 1009" using x by simp
  have "map_option (map_sum id length) (generate_timestamps ?self 5) = Some (Inr 2017)"
    "map_option (map_sum id length) (generate_timestamps ?self 15) = Some (Inr 673)"
    "map_option (map_sum id length) (generate_timestamps ?self 30) = Some (Inr 337)"
    "map_option (map_sum id length) (generate_timestamps ?self 10) = Some (Inr 1009)"
    using 1 2 3 4 window_lengths [OF s r]
    by (simp_all add: series_count_def timedelta_days_def NUM_DAYS_def e)
  with i show ?thesis by blast
qed

text \<open>
  C1. The constructor reads the clock twice. With a second reading one microsecond after
  the first (here 2026-11-03T12:00:00 and 12:00:00.000001) the window is seven days and
  one microsecond long, and the series at 5, 15, 30 and 10 minutes have 2017, 673, 337
  and 1009 elements: one more than the 2016, 672, 336 and 1008 of a seven-day window.
\<close>

theorem seven_day_window_one_microsecond_later:
  "init \<lparr>now_first = 63929304000000000, now_second = 63929304000000001,
         mkdir_raises = None, write_raises = (\<lambda>f. None)\<rparr> =
     Inr \<lparr>start_time = 63928699200000000, end_time = 63929304000000001\<rparr> \<and>
   map_option (map_sum id length)
     (generate_timestamps \<lparr>start_time = 63928699200000000, end_time = 63929304000000001\<rparr> 5) =
     Some (Inr 2017) \<and>
   map_option (map_sum id length)
     (generate_timestamps \<lparr>start_time = 63928699200000000, end_time = 63929304000000001\<rparr> 15) =
     Some (Inr 673) \<and>
   map_option (map_sum id length)
     (generate_timestamps \<lparr>start_time = 63928699200000000, end_time = 63929304000000001\<rparr> 30) =
     Some (Inr 337) \<and>
   map_option (map_sum id length)
     (generate_timestamps \<lparr>start_time = 63928699200000000, end_time = 63929304000000001\<rparr> 10) =
     Some (Inr 1009)"
proof -
  let ?self = "\<lparr>start_time = 63928699200000000, end_time = 63929304000000001\<rparr>"
  have r: "end_time ?self + 1800000000 \<le> datetime_max"
    by (simp add: datetime_max_def)
  have s: "0 \<le> start_time ?self" by simp
  have "init \<lparr>now_first = 63929304000000000, now_second = 63929304000000001,
         mkdir_raises = None, write_raises = (\<lambda>f. None)\<rparr> = Inr ?self"
    by (simp add: init_def datetime_add_def datetime_max_def timedelta_days_def NUM_DAYS_def)
  then show ?thesis
    using window_lengths [OF s r] by (simp add: series_count_def)
qed


subsection \<open>Nested loops\<close>

lemma nested_loops_length:
  "length (concat (fst (for_each (\<lambda>t. for_each (body t) xs) ts p))) = length ts * length xs"
proof -
  let ?bs = "fst (for_each (\<lambda>t. for_each (body t) xs) ts p)"
  have "length (concat ?bs) = length ?bs * length xs"
  proof (rule concat_length_uniform)
    fix b assume "b \<in> set ?bs"
    then obtain t q where "b = fst (for_each (body t) xs q)"
      using for_each_set by fastforce
    then show "length b = length xs"
      by (simp add: for_each_length)
  qed
  then show ?thesis
    by (simp add: for_each_length)
qed

lemma nested_loops_set:
  assumes "r \<in> set (concat (fst (for_each (\<lambda>t. for_each (body t) xs) ts p)))"
  shows "\<exists>t\<in>set ts. \<exists>x\<in>set xs. \<exists>q. r = fst (body t x q)"
proof -
  from assms obtain b where b: "b \<in> set (fst (for_each (\<lambda>t. for_each (body t) xs) ts p))"
    and r: "r \<in> set b"
    by auto
  from for_each_set [OF b] obtain t q where t: "t \<in> set ts" and "b = fst (for_each (body t) xs q)"
    by auto
  with r for_each_set [of r "body t" xs q] t show ?thesis
    by auto
qed

subsection \<open>Traffic sensors\<close>

lemma traffic_data_length:
  "length (fst (traffic_data rng ts sensors p)) = length ts * length sensors"
  by (simp add: traffic_data_def split_beta nested_loops_length)

lemma traffic_data_set:
  "r \<in> set (fst (traffic_data rng ts sensors p)) \<Longrightarrow>
   \<exists>t\<in>set ts. \<exists>s\<in>set sensors. \<exists>q. r = fst (traffic_reading rng t s q)"
  by (simp add: traffic_data_def split_beta nested_loops_set)

lemma generate_traffic_sensors_Inr:
  assumes "generate_traffic_sensors env self rng p = Some (Inr (rows, p'))"
  shows "\<exists>sensors q ts. length sensors = 50 \<and>
           generate_timestamps self 5 = Some (Inr ts) \<and>
           rows = fst (traffic_data rng ts sensors q)"
proof -
  let ?sensors = "fst (for_each (traffic_sensor_location rng) [1..<51] p)"
  let ?q = "snd (for_each (traffic_sensor_location rng) [1..<51] p)"
  have "length ?sensors = 50"
    by (simp add: for_each_length)
  moreover obtain ts where "generate_timestamps self 5 = Some (Inr ts)"
    and "rows = fst (traffic_data rng ts ?sensors ?q)"
    using assms
    by (auto simp: generate_traffic_sensors_def split_beta split: option.splits sum.splits)
  ultimately show ?thesis by blast
qed

lemma generate_traffic_sensors_returns:
  assumes "write_raises env ''traffic_sensors.csv'' = None"
    and "generate_timestamps self 5 = Some (Inr ts)"
  shows "\<exists>rows p'. generate_traffic_sensors env self rng p = Some (Inr (rows, p'))"
  using assms
  by (simp add: generate_traffic_sensors_def split_beta)

lemma traffic_reading_congestion:
  fixes rng t s p
  defines "r \<equiv> fst (traffic_reading rng t s p)"
  shows "congestion_level r =
     congestion_spec
       (((7 \<le> hour (tr_timestamp r) \<and> hour (tr_timestamp r) \<le> 9) \<or>
         (17 \<le> hour (tr_timestamp r) \<and> hour (tr_timestamp r) \<le> 19)) \<and>
        \<not> weekday (tr_timestamp r) \<ge> 5)
       (of_int (vehicle_count r))
       (if tr_road_type r = ''highway'' then 30 else 15)"
  unfolding r_def
  by (auto simp: traffic_reading_def congestion_spec_def np_random_normal_def Let_def max_def)

lemma traffic_reading_bounds:
  "0 \<le> vehicle_count (fst (traffic_reading rng t s p)) \<and>
   5 \<le> avg_speed (fst (traffic_reading rng t s p))"
  by (auto simp: traffic_reading_def np_random_normal_def Let_def max_def)

subsection \<open>Air quality monitors\<close>

lemma air_quality_data_length:
  "length (fst (air_quality_data rng ts monitors p)) = length ts * length monitors"
  by (simp add: air_quality_data_def split_beta nested_loops_length)

lemma air_quality_data_set:
  "r \<in> set (fst (air_quality_data rng ts monitors p)) \<Longrightarrow>
   \<exists>t\<in>set ts. \<exists>m\<in>set monitors. \<exists>q. r = fst (air_quality_reading rng t m q)"
  by (simp add: air_quality_data_def split_beta nested_loops_set)

lemma generate_air_quality_data_Inr:
  assumes "generate_air_quality_data env self rng p = Some (Inr (rows, p'))"
  shows "\<exists>monitors q ts. length monitors = 20 \<and>
           generate_timestamps self 15 = Some (Inr ts) \<and>
           rows = fst (air_quality_data rng ts monitors q)"
proof -
  let ?monitors = "fst (for_each (monitor_location rng) [1..<21] p)"
  let ?q = "snd (for_each (monitor_location rng) [1..<21] p)"
  have "length ?monitors = 20"
    by (simp add: for_each_length)
  moreover obtain ts where "generate_timestamps self 15 = Some (Inr ts)"
    and "rows = fst (air_quality_data rng ts ?monitors ?q)"
    using assms
    by (auto simp: generate_air_quality_data_def split_beta split: option.splits sum.splits)
  ultimately show ?thesis by blast
qed

lemma generate_air_quality_data_returns:
  assumes "write_raises env ''air_quality.json'' = None"
    and "generate_timestamps self 15 = Some (Inr ts)"
  shows "\<exists>rows p'. generate_air_quality_data env self rng p = Some (Inr (rows, p'))"
  using assms
  by (simp add: generate_air_quality_data_def split_beta)

lemma air_quality_reading_bounds:
  "0 \<le> pm25 (fst (air_quality_reading rng t m p)) \<and>
   0 \<le> pm10 (fst (air_quality_reading rng t m p)) \<and>
   0 \<le> no2 (fst (air_quality_reading rng t m p)) \<and>
   0 \<le> co (fst (air_quality_reading rng t m p))"
  by (simp add: air_quality_reading_def np_random_normal_def np_random_uniform_def Let_def)

lemma air_quality_reading_humidity:
  "aq_humidity (fst (air_quality_reading rng t m p)) = fst (np_random_uniform rng 30 80 (p + 5))"
  by (simp add: air_quality_reading_def np_random_normal_def np_random_uniform_def Let_def
      eval_nat_numeral)

lemma np_random_uniform_range:
  assumes "draws_in_range rng" "low \<le> high"
  shows "low \<le> fst (np_random_uniform rng low high p) \<and>
         fst (np_random_uniform rng low high p) \<le> high"
proof -
  have u: "0 \<le> random_sample rng p" "random_sample rng p \<le> 1"
    using assms(1) by (simp_all add: draws_in_range_def less_imp_le)
  have "0 \<le> (high - low) * random_sample rng p"
    using u assms(2) by simp
  moreover have "(high - low) * random_sample rng p \<le> (high - low) * 1"
    using u assms(2) by (intro mult_left_mono) simp_all
  ultimately show ?thesis
    by (simp add: np_random_uniform_def)
qed

subsection \<open>Weather stations\<close>

lemma weather_reading_advances: "p < snd (weather_reading rng t d s p)"
  by (simp add: weather_reading_def np_random_normal_def np_random_uniform_def
      np_random_exponential_def np_random_random_def Let_def split_beta)

lemma weather_reading_fields:
  "w_timestamp (fst (weather_reading rng t d s p)) = t \<and>
   temperature (fst (weather_reading rng t d s p)) = d + fst (np_random_normal rng 0 1 p)"
  by (simp add: weather_reading_def np_random_normal_def np_random_uniform_def
      np_random_exponential_def np_random_random_def Let_def split_beta)

lemma weather_reading_bounds:
  "20 \<le> humidity (fst (weather_reading rng t d s p)) \<and>
   humidity (fst (weather_reading rng t d s p)) \<le> 100 \<and>
   0 \<le> wind_speed (fst (weather_reading rng t d s p)) \<and>
   0 \<le> precipitation (fst (weather_reading rng t d s p))"
  by (simp add: weather_reading_def np_random_normal_def np_random_uniform_def
      np_random_exponential_def np_random_random_def Let_def split_beta)

lemma weather_at_length: "length (fst (weather_at rng stations t p)) = length stations"
  by (simp add: weather_at_def np_random_normal_def Let_def for_each_length)

lemma weather_at_set:
  "r \<in> set (fst (weather_at rng stations t p)) \<Longrightarrow>
   \<exists>s\<in>set stations. \<exists>d q. r = fst (weather_reading rng t d s q)"
  using for_each_set [of r _ stations]
  by (fastforce simp: weather_at_def np_random_normal_def Let_def)

lemma weather_at_block:
  "\<exists>ks. length ks = length stations \<and> distinct (p # ks) \<and>
     (\<forall>j<length stations.
        w_timestamp (fst (weather_at rng stations t p) ! j) = t \<and>
        temperature (fst (weather_at rng stations t p) ! j) =
          day_temp_spec (fst (np_random_normal rng 0 3 p)) (hour t) +
          fst (np_random_normal rng 0 1 (ks ! j)))"
proof -
  let ?d = "day_temp_spec (fst (np_random_normal rng 0 3 p)) (hour t)"
  let ?body = "weather_reading rng t ?d"
  let ?ks = "draw_positions ?body stations (Suc p)"
  have block: "fst (weather_at rng stations t p) = fst (for_each ?body stations (Suc p))"
    by (simp add: weather_at_def day_temp_spec_def base_temp_def np_random_normal_def Let_def)
  have "length ?ks = length stations"
    by (simp add: draw_positions_length)
  moreover have "distinct ?ks"
    by (rule draw_positions_distinct) (rule weather_reading_advances)
  moreover have "p \<notin> set ?ks"
  proof
    assume "p \<in> set ?ks"
    then have "Suc p \<le> p"
      by (rule draw_positions_lower [rotated]) (rule weather_reading_advances)
    then show False by simp
  qed
  moreover have "\<forall>j<length stations.
        w_timestamp (fst (weather_at rng stations t p) ! j) = t \<and>
        temperature (fst (weather_at rng stations t p) ! j) =
          ?d + fst (np_random_normal rng 0 1 (?ks ! j))"
    by (simp add: block for_each_nth weather_reading_fields)
  ultimately show ?thesis
    by (intro exI [of _ ?ks]) simp
qed

lemma weather_data_length:
  "length (fst (weather_data rng ts stations p)) = length ts * length stations"
proof -
  let ?bs = "fst (for_each (weather_at rng stations) ts p)"
  have "length (concat ?bs) = length ?bs * length stations"
  proof (rule concat_length_uniform)
    fix b assume "b \<in> set ?bs"
    then obtain t q where "b = fst (weather_at rng stations t q)"
      using for_each_set by fastforce
    then show "length b = length stations"
      by (simp add: weather_at_length)
  qed
  then show ?thesis
    by (simp add: weather_data_def split_beta for_each_length)
qed

lemma weather_data_set:
  assumes "r \<in> set (fst (weather_data rng ts stations p))"
  shows "\<exists>t\<in>set ts. \<exists>s\<in>set stations. \<exists>d q. r = fst (weather_reading rng t d s q)"
proof -
  from assms obtain b where b: "b \<in> set (fst (for_each (weather_at rng stations) ts p))"
    and r: "r \<in> set b"
    by (auto simp: weather_data_def split_beta)
  from for_each_set [OF b] obtain t q where "t \<in> set ts" "b = fst (weather_at rng stations t q)"
    by auto
  with r weather_at_set [of r rng stations t q] show ?thesis
    by auto
qed

lemma weather_data_nth:
  assumes "i < length ts" "j < length stations"
  shows "\<exists>q. fst (weather_data rng ts stations p) ! (i * length stations + j) =
              fst (weather_at rng stations (ts ! i) q) ! j"
proof -
  let ?bs = "fst (for_each (weather_at rng stations) ts p)"
  have "concat ?bs ! (i * length stations + j) = ?bs ! i ! j"
  proof (rule concat_nth_uniform)
    fix b assume "b \<in> set ?bs"
    then obtain t q where "b = fst (weather_at rng stations t q)"
      using for_each_set by fastforce
    then show "length b = length stations"
      by (simp add: weather_at_length)
  qed (use assms in \<open>simp_all add: for_each_length\<close>)
  then show ?thesis
    using assms by (auto simp: weather_data_def split_beta for_each_nth)
qed

lemma generate_weather_data_Inr:
  assumes "generate_weather_data env self rng p = Some (Inr (rows, p'))"
  shows "\<exists>stations q ts. length stations = 10 \<and>
           generate_timestamps self 30 = Some (Inr ts) \<and>
           rows = fst (weather_data rng ts stations q)"
proof -
  let ?stations = "fst (for_each (station_location rng) [1..<11] p)"
  let ?q = "snd (for_each (station_location rng) [1..<11] p)"
  have "length ?stations = 10"
    by (simp add: for_each_length)
  moreover obtain ts where "generate_timestamps self 30 = Some (Inr ts)"
    and "rows = fst (weather_data rng ts ?stations ?q)"
    using assms
    by (auto simp: generate_weather_data_def split_beta split: option.splits sum.splits)
  ultimately show ?thesis by blast
qed

lemma generate_weather_data_returns:
  assumes "write_raises env ''weather_data.parquet'' = None"
    and "generate_timestamps self 30 = Some (Inr ts)"
  shows "\<exists>rows p'. generate_weather_data env self rng p = Some (Inr (rows, p'))"
  using assms
  by (simp add: generate_weather_data_def split_beta)

lemma base_consumption_keys:
  "base_consumption bt \<noteq> None \<longleftrightarrow> bt \<in> set building_types"
  by (simp add: base_consumption_def building_types_def)

lemma consumption_factor_is_spec:
  "bt \<in> set building_types \<Longrightarrow>
   consumption_factor_spec bt bh we h = Some (consumption_factor bt h bh we)"
  by (auto simp: consumption_factor_spec_def consumption_factor_def building_types_def)

lemma np_random_choice_member:
  "xs \<noteq> [] \<Longrightarrow> fst (np_random_choice rng xs p) \<in> set xs"
  by (simp add: np_random_choice_def)

lemma meter_location_building_type:
  "building_type (fst (meter_location rng i p)) \<in> set building_types"
proof -
  have "building_types \<noteq> []"
    by (simp add: building_types_def)
  then have "fst (np_random_choice rng building_types q) \<in> set building_types" for q
    by (rule np_random_choice_member)
  then show ?thesis
    by (simp add: meter_location_def split_beta Let_def)
qed

lemma energy_reading_Inr:
  assumes "energy_reading rng t m p = Inr (r, p')"
  shows "\<exists>base. base_consumption (building_type m) = Some base \<and>
           en_building_type r = building_type m \<and> en_timestamp r = t \<and>
           power_consumption r =
             base * consumption_factor (building_type m) (hour t)
                      (8 \<le> hour t \<and> hour t \<le> 18) (weekday t \<ge> 5) *
               fst (np_random_uniform rng 0.7 1.3 p) \<and>
           voltage r = fst (np_random_normal rng 240 5 (Suc p)) \<and>
           voltage r \<noteq> 0 \<and>
           current r = power_consumption r / voltage r * 1000"
  using assms
  by (auto simp: energy_reading_def np_random_uniform_def np_random_normal_def Let_def
      split: option.splits if_splits)

lemma energy_reading_zero_voltage:
  assumes "base_consumption (building_type m) \<noteq> None"
    and "fst (np_random_normal rng 240 5 (Suc p)) = 0"
  shows "energy_reading rng t m p = Inl ZeroDivisionError"
  using assms
  by (auto simp: energy_reading_def np_random_uniform_def np_random_normal_def Let_def
      split: option.splits)

lemma energy_reading_returns:
  assumes "base_consumption (building_type m) \<noteq> None"
    and "fst (np_random_normal rng 240 5 (Suc p)) \<noteq> 0"
  shows "\<exists>r p'. energy_reading rng t m p = Inr (r, p')"
  using assms
  by (auto simp: energy_reading_def np_random_uniform_def np_random_normal_def Let_def
      split: option.splits)

lemma energy_data_set:
  assumes "energy_data rng ts meters p = Inr (rows, p')" "r \<in> set rows"
  shows "\<exists>t\<in>set ts. \<exists>m\<in>set meters. \<exists>q q'. energy_reading rng t m q = Inr (r, q')"
proof -
  from assms(1) obtain blocks where
    l: "for_each_try (\<lambda>t. for_each_try (energy_reading rng t) meters) ts p = Inr (blocks, p')"
    and rows: "rows = concat blocks"
    by (auto simp: energy_data_def split: sum.splits)
  from assms(2) rows obtain b where b: "b \<in> set blocks" and rb: "r \<in> set b"
    by auto
  from for_each_try_set [OF l b] obtain t q q' where t: "t \<in> set ts"
    and "for_each_try (energy_reading rng t) meters q = Inr (b, q')"
    by auto
  from for_each_try_set [OF this(2) rb] t show ?thesis
    by auto
qed

lemma energy_data_length:
  assumes "energy_data rng ts meters p = Inr (rows, p')"
  shows "length rows = length ts * length meters"
proof -
  from assms obtain blocks where
    l: "for_each_try (\<lambda>t. for_each_try (energy_reading rng t) meters) ts p = Inr (blocks, p')"
    and rows: "rows = concat blocks"
    by (auto simp: energy_data_def split: sum.splits)
  have "length (concat blocks) = length blocks * length meters"
  proof (rule concat_length_uniform)
    fix b assume "b \<in> set blocks"
    from for_each_try_set [OF l this] obtain t q q' where
      "for_each_try (energy_reading rng t) meters q = Inr (b, q')"
      by auto
    then show "length b = length meters"
      by (rule for_each_try_length)
  qed
  with rows for_each_try_length [OF l] show ?thesis
    by simp
qed

lemma energy_data_returns:
  assumes "\<And>m. m \<in> set meters \<Longrightarrow> building_type m \<in> set building_types"
    and "\<And>k. fst (np_random_normal rng 240 5 k) \<noteq> 0"
  shows "\<exists>rows p'. energy_data rng ts meters p = Inr (rows, p')"
proof -
  have inner: "\<exists>r. for_each_try (energy_reading rng t) meters q = Inr r" for t q
  proof (rule for_each_try_returns)
    fix m q' assume "m \<in> set meters"
    then have "building_type m \<in> set building_types"
      by (rule assms(1))
    then have "base_consumption (building_type m) \<noteq> None"
      by (simp only: base_consumption_keys)
    then show "\<exists>r. energy_reading rng t m q' = Inr r"
      using energy_reading_returns [OF _ assms(2)] by fastforce
  qed
  have "\<exists>r. for_each_try (\<lambda>t. for_each_try (energy_reading rng t) meters) ts p = Inr r"
    by (rule for_each_try_returns) (rule inner)
  then show ?thesis
    by (auto simp: energy_data_def)
qed

lemma meter_locations_building_types:
  assumes "m \<in> set (fst (for_each (meter_location rng) is p))"
  shows "building_type m \<in> set building_types"
  using for_each_set [OF assms] meter_location_building_type by auto

lemma generate_energy_data_Inr:
  assumes "generate_energy_data env self rng p = Some (Inr (rows, p'))"
  shows "\<exists>meters q ts. length meters = 200 \<and>
           generate_timestamps self 10 = Some (Inr ts) \<and>
           energy_data rng ts meters q = Inr (rows, p')"
proof -
  let ?meters = "fst (for_each (meter_location rng) [1..<201] p)"
  let ?q = "snd (for_each (meter_location rng) [1..<201] p)"
  have "length ?meters = 200"
    by (simp add: for_each_length)
  moreover obtain ts where "generate_timestamps self 10 = Some (Inr ts)"
    and "energy_data rng ts ?meters ?q = Inr (rows, p')"
    using assms
    by (auto simp: generate_energy_data_def split_beta split: option.splits sum.splits)
  ultimately show ?thesis by blast
qed

lemma generate_energy_data_returns:
  assumes "write_raises env ''energy_meters.csv'' = None"
    and "\<And>k. fst (np_random_normal rng 240 5 k) \<noteq> 0"
    and "generate_timestamps self 10 = Some (Inr ts)"
  shows "\<exists>rows p'. generate_energy_data env self rng p = Some (Inr (rows, p'))"
proof -
  let ?meters = "fst (for_each (meter_location rng) [1..<201] p)"
  let ?q = "snd (for_each (meter_location rng) [1..<201] p)"
  have "\<exists>rows p'. energy_data rng ts ?meters ?q = Inr (rows, p')"
  proof (rule energy_data_returns)
    fix m assume "m \<in> set ?meters"
    then show "building_type m \<in> set building_types"
      by (rule meter_locations_building_types)
  qed (rule assms(2))
  then obtain rows p' where "energy_data rng ts ?meters ?q = Inr (rows, p')"
    by blast
  then show ?thesis
    using assms(1,3)
    by (simp add: generate_energy_data_def split_beta)
qed

subsection \<open>Record counts\<close>

lemma seven_days_before_noon:
  "series_count (start_time week_before_noon) (end_time week_before_noon) 300000000 = 2016"
  "series_count (start_time week_before_noon) (end_time week_before_noon) 900000000 = 672"
  "series_count (start_time week_before_noon) (end_time week_before_noon) 1800000000 = 336"
  "series_count (start_time week_before_noon) (end_time week_before_noon) 600000000 = 1008"
  by (simp_all add: week_before_noon_def noon_def series_count_def timedelta_days_def NUM_DAYS_def)

lemma week_before_noon_in_range:
  "0 \<le> start_time week_before_noon"
  "end_time week_before_noon + 1800000000 \<le> datetime_max"
  by (simp_all add: week_before_noon_def noon_def timedelta_days_def NUM_DAYS_def datetime_max_def)

lemma week_before_noon_timestamps:
  "generate_timestamps week_before_noon 5 =
     Some (Inr (series (start_time week_before_noon) (end_time week_before_noon) 300000000))"
  "generate_timestamps week_before_noon 15 =
     Some (Inr (series (start_time week_before_noon) (end_time week_before_noon) 900000000))"
  "generate_timestamps week_before_noon 30 =
     Some (Inr (series (start_time week_before_noon) (end_time week_before_noon) 1800000000))"
  "generate_timestamps week_before_noon 10 =
     Some (Inr (series (start_time week_before_noon) (end_time week_before_noon) 600000000))"
  using week_before_noon_in_range
  by (simp_all add: generate_timestamps_series timedelta_minutes_whole series_within_range)

lemma week_before_noon_nonempty:
  "series (start_time week_before_noon) (end_time week_before_noon) 300000000 \<noteq> []"
  "series (start_time week_before_noon) (end_time week_before_noon) 900000000 \<noteq> []"
  "series (start_time week_before_noon) (end_time week_before_noon) 1800000000 \<noteq> []"
  "series (start_time week_before_noon) (end_time week_before_noon) 600000000 \<noteq> []"
  using seven_days_before_noon series_length
  by (metis less_numeral_extra(3) list.size(3) zero_less_numeral)+

lemma steady_environment_writes: "write_raises steady_environment f = None"
  by (simp add: steady_environment_def)

lemma zero_source_volts: "fst (np_random_normal zero_source 240 5 k) \<noteq> 0"
  by (simp add: np_random_normal_def zero_source_def)

lemma zero_source_in_range: "draws_in_range zero_source"
  by (simp add: draws_in_range_def zero_source_def)

text \<open>
  C3. Whenever a generator of a time series hands its table to the writer, the table has
  one record per timestamp of its series and sensor: the number of timestamps times 50
  (traffic), 20 (air quality), 10 (weather) and 200 (energy). The zone table has 8 rows.
\<close>

theorem record_counts:
  "(generate_traffic_sensors env self rng p1 = Some (Inr (traffic, q1)) \<longrightarrow>
      (\<exists>ts. generate_timestamps self 5 = Some (Inr ts) \<and> length traffic = length ts * 50)) \<and>
   (generate_air_quality_data env self rng p2 = Some (Inr (air, q2)) \<longrightarrow>
      (\<exists>ts. generate_timestamps self 15 = Some (Inr ts) \<and> length air = length ts * 20)) \<and>
   (generate_weather_data env self rng p3 = Some (Inr (wth, q3)) \<longrightarrow>
      (\<exists>ts. generate_timestamps self 30 = Some (Inr ts) \<and> length wth = length ts * 10)) \<and>
   (generate_energy_data env self rng p4 = Some (Inr (en, q4)) \<longrightarrow>
      (\<exists>ts. generate_timestamps self 10 = Some (Inr ts) \<and> length en = length ts * 200)) \<and>
   (generate_city_zones env = Inr zones \<longrightarrow> length zones = 8) \<and>
   length zones_data = 8"
proof (intro conjI impI)
  assume "generate_traffic_sensors env self rng p1 = Some (Inr (traffic, q1))"
  from generate_traffic_sensors_Inr [OF this]
  show "\<exists>ts. generate_timestamps self 5 = Some (Inr ts) \<and> length traffic = length ts * 50"
    by (auto simp: traffic_data_length)
next
  assume "generate_air_quality_data env self rng p2 = Some (Inr (air, q2))"
  from generate_air_quality_data_Inr [OF this]
  show "\<exists>ts. generate_timestamps self 15 = Some (Inr ts) \<and> length air = length ts * 20"
    by (auto simp: air_quality_data_length)
next
  assume "generate_weather_data env self rng p3 = Some (Inr (wth, q3))"
  from generate_weather_data_Inr [OF this]
  show "\<exists>ts. generate_timestamps self 30 = Some (Inr ts) \<and> length wth = length ts * 10"
    by (auto simp: weather_data_length)
next
  assume "generate_energy_data env self rng p4 = Some (Inr (en, q4))"
  from generate_energy_data_Inr [OF this]
  show "\<exists>ts. generate_timestamps self 10 = Some (Inr ts) \<and> length en = length ts * 200"
    by (auto dest: energy_data_length)
next
  assume "generate_city_zones env = Inr zones"
  then show "length zones = 8"
    by (auto simp: generate_city_zones_def zones_data_def split: option.splits)
next
  show "length zones_data = 8"
    by (simp add: zones_data_def)
qed

text \<open>The theorem for the week before 2026-11-03T12:00:00: 100800, 13440, 3360 and
  201600 records, and 8 zones.\<close>

theorem record_counts_witness:
  "\<exists>traffic q1 air q2 wth q3 en q4 zones.
     generate_traffic_sensors steady_environment week_before_noon zero_source 0 =
       Some (Inr (traffic, q1)) \<and> length traffic = 2016 * 50 \<and>
     generate_air_quality_data steady_environment week_before_noon zero_source 0 =
       Some (Inr (air, q2)) \<and> length air = 672 * 20 \<and>
     generate_weather_data steady_environment week_before_noon zero_source 0 =
       Some (Inr (wth, q3)) \<and> length wth = 336 * 10 \<and>
     generate_energy_data steady_environment week_before_noon zero_source 0 =
       Some (Inr (en, q4)) \<and> length en = 1008 * 200 \<and>
     generate_city_zones steady_environment = Inr zones \<and> length zones = 8"
proof -
  obtain traffic q1 where 1:
    "generate_traffic_sensors steady_environment week_before_noon zero_source 0 = Some (Inr (traffic, q1))"
    using generate_traffic_sensors_returns [OF steady_environment_writes week_before_noon_timestamps(1)]
    by blast
  obtain air q2 where 2:
    "generate_air_quality_data steady_environment week_before_noon zero_source 0 = Some (Inr (air, q2))"
    using generate_air_quality_data_returns [OF steady_environment_writes week_before_noon_timestamps(2)]
    by blast
  obtain wth q3 where 3:
    "generate_weather_data steady_environment week_before_noon zero_source 0 = Some (Inr (wth, q3))"
    using generate_weather_data_returns [OF steady_environment_writes week_before_noon_timestamps(3)]
    by blast
  obtain en q4 where 4:
    "generate_energy_data steady_environment week_before_noon zero_source 0 = Some (Inr (en, q4))"
    using generate_energy_data_returns
      [OF steady_environment_writes zero_source_volts week_before_noon_timestamps(4)]
    by blast
  have 5: "generate_city_zones steady_environment = Inr zones_data"
    by (simp add: generate_city_zones_def steady_environment_def)
  from record_counts [of steady_environment week_before_noon zero_source 0 traffic q1
      0 air q2 0 wth q3 0 en q4 zones_data] 1 2 3 4 5
  have "length traffic = 2016 * 50 \<and> length air = 672 * 20 \<and> length wth = 336 * 10 \<and>
        length en = 1008 * 200 \<and> length zones_data = 8"
    by (simp add: week_before_noon_timestamps series_length seven_days_before_noon)
  with 1 2 3 4 5 show ?thesis by blast
qed

subsection \<open>Congestion level\<close>

lemma traffic_reading_fields:
  "tr_timestamp (fst (traffic_reading rng t s p)) = t \<and>
   tr_road_type (fst (traffic_reading rng t s p)) = road_type s"
  by (simp add: traffic_reading_def np_random_normal_def Let_def split_beta)

lemma traffic_rows_nonempty:
  assumes "generate_traffic_sensors env self rng p = Some (Inr (rows, p'))"
    and "generate_timestamps self 5 = Some (Inr ts)" "ts \<noteq> []"
  shows "hd rows \<in> set rows"
proof -
  from generate_traffic_sensors_Inr [OF assms(1)] assms(2)
  obtain sensors q where "length sensors = 50" and "rows = fst (traffic_data rng ts sensors q)"
    by auto
  then have "length rows = length ts * 50"
    by (simp add: traffic_data_length)
  with assms(3) have "rows \<noteq> []" by auto
  then show ?thesis by simp
qed

text \<open>At the thresholds: with a base count of 30, a count of exactly 21 outside the rush
  hour and a count of exactly 45 in the rush hour of a working day are both
  \<open>medium\<close>; 20 is \<open>low\<close> and 46 is \<open>high\<close>. (2026-11-03 is a Tuesday; the second
  instant is 08:00 of that day.)\<close>

lemma congestion_at_thresholds:
  "vehicle_count (fst (traffic_reading (zero_source\<lparr>standard_normal := (\<lambda>k. - 0.75)\<rparr>)
     noon highway_sensor 0)) = 21"
  "congestion_level (fst (traffic_reading (zero_source\<lparr>standard_normal := (\<lambda>k. - 0.75)\<rparr>)
     noon highway_sensor 0)) = ''medium''"
  "vehicle_count (fst (traffic_reading (zero_source\<lparr>standard_normal := (\<lambda>k. - 0.8)\<rparr>)
     noon highway_sensor 0)) = 20"
  "congestion_level (fst (traffic_reading (zero_source\<lparr>standard_normal := (\<lambda>k. - 0.8)\<rparr>)
     noon highway_sensor 0)) = ''low''"
  "vehicle_count (fst (traffic_reading (zero_source\<lparr>standard_normal := (\<lambda>k. - 5 / 3)\<rparr>)
     (noon - 14400000000) highway_sensor 0)) = 45"
  "congestion_level (fst (traffic_reading (zero_source\<lparr>standard_normal := (\<lambda>k. - 5 / 3)\<rparr>)
     (noon - 14400000000) highway_sensor 0)) = ''medium''"
  "vehicle_count (fst (traffic_reading (zero_source\<lparr>standard_normal := (\<lambda>k. - 1.5)\<rparr>)
     (noon - 14400000000) highway_sensor 0)) = 46"
  "congestion_level (fst (traffic_reading (zero_source\<lparr>standard_normal := (\<lambda>k. - 1.5)\<rparr>)
     (noon - 14400000000) highway_sensor 0)) = ''high''"
  by (simp_all add: traffic_reading_def np_random_normal_def Let_def highway_sensor_def
      zero_source_def py_int_def hour_def weekday_def noon_def)

text \<open>
  C4. For every record of the traffic table the congestion level is the value that the
  thresholds give for the record's own vehicle count and base count (30 for a highway,
  15 otherwise) in the branch of its timestamp: in the rush hour of a working day
  \<open>high\<close> if the count exceeds 1.5 times the base count and \<open>medium\<close> otherwise; else
  \<open>low\<close> if the count is below 0.7 times the base count and \<open>medium\<close> otherwise. A
  count exactly at a threshold gives \<open>medium\<close>.
\<close>

theorem congestion_by_thresholds:
  assumes "generate_traffic_sensors env self rng p = Some (Inr (rows, p'))"
    and "r \<in> set rows"
  shows "congestion_level r =
     congestion_spec
       (((7 \<le> hour (tr_timestamp r) \<and> hour (tr_timestamp r) \<le> 9) \<or>
         (17 \<le> hour (tr_timestamp r) \<and> hour (tr_timestamp r) \<le> 19)) \<and>
        \<not> weekday (tr_timestamp r) \<ge> 5)
       (of_int (vehicle_count r))
       (if tr_road_type r = ''highway'' then 30 else 15)"
proof -
  from generate_traffic_sensors_Inr [OF assms(1)] assms(2)
  obtain ts sensors q where "r \<in> set (fst (traffic_data rng ts sensors q))"
    by blast
  then obtain t s q' where "r = fst (traffic_reading rng t s q')"
    using traffic_data_set by blast
  then show ?thesis
    by (simp only: traffic_reading_congestion)
qed

text \<open>The theorem for a record of the week before 2026-11-03T12:00:00.\<close>

theorem congestion_by_thresholds_witness:
  "\<exists>rows p' r.
     generate_traffic_sensors steady_environment week_before_noon zero_source 0 =
       Some (Inr (rows, p')) \<and> r \<in> set rows \<and>
     congestion_level r =
       congestion_spec
         (((7 \<le> hour (tr_timestamp r) \<and> hour (tr_timestamp r) \<le> 9) \<or>
           (17 \<le> hour (tr_timestamp r) \<and> hour (tr_timestamp r) \<le> 19)) \<and>
          \<not> weekday (tr_timestamp r) \<ge> 5)
         (of_int (vehicle_count r))
         (if tr_road_type r = ''highway'' then 30 else 15)"
proof -
  obtain rows p' where g:
    "generate_traffic_sensors steady_environment week_before_noon zero_source 0 = Some (Inr (rows, p'))"
    using generate_traffic_sensors_returns [OF steady_environment_writes week_before_noon_timestamps(1)]
    by blast
  have m: "hd rows \<in> set rows"
    using g week_before_noon_timestamps(1) week_before_noon_nonempty(1)
    by (rule traffic_rows_nonempty)
  from congestion_by_thresholds [OF g m] g m show ?thesis
    by blast
qed

subsection \<open>Bounds of the measurements\<close>

lemma air_quality_rows_nonempty:
  assumes "generate_air_quality_data env self rng p = Some (Inr (rows, p'))"
    and "generate_timestamps self 15 = Some (Inr ts)" "ts \<noteq> []"
  shows "hd rows \<in> set rows"
proof -
  from generate_air_quality_data_Inr [OF assms(1)] assms(2)
  obtain monitors q where "length monitors = 20" and "rows = fst (air_quality_data rng ts monitors q)"
    by auto
  then have "length rows = length ts * 20"
    by (simp add: air_quality_data_length)
  with assms(3) have "rows \<noteq> []" by auto
  then show ?thesis by simp
qed

lemma weather_rows_nonempty:
  assumes "generate_weather_data env self rng p = Some (Inr (rows, p'))"
    and "generate_timestamps self 30 = Some (Inr ts)" "ts \<noteq> []"
  shows "hd rows \<in> set rows"
proof -
  from generate_weather_data_Inr [OF assms(1)] assms(2)
  obtain stations q where "length stations = 10" and "rows = fst (weather_data rng ts stations q)"
    by auto
  then have "length rows = length ts * 10"
    by (simp add: weather_data_length)
  with assms(3) have "rows \<noteq> []" by auto
  then show ?thesis by simp
qed

text \<open>
  C6. Whatever the random source delivers, every record of the traffic table has a
  vehicle count of at least 0 and an average speed of at least 5; every record of the
  weather table has a humidity between 20 and 100, a wind speed of at least 0 and a
  precipitation of at least 0; every record of the air quality table has pm25, pm10, no2
  and co of at least 0.
\<close>

theorem clamped_fields_in_bounds:
  "(generate_traffic_sensors env self rng p1 = Some (Inr (traffic, q1)) \<longrightarrow>
      (\<forall>r \<in> set traffic. 0 \<le> vehicle_count r \<and> 5 \<le> avg_speed r)) \<and>
   (generate_weather_data env self rng p2 = Some (Inr (wth, q2)) \<longrightarrow>
      (\<forall>r \<in> set wth. 20 \<le> humidity r \<and> humidity r \<le> 100 \<and>
                      0 \<le> wind_speed r \<and> 0 \<le> precipitation r)) \<and>
   (generate_air_quality_data env self rng p3 = Some (Inr (air, q3)) \<longrightarrow>
      (\<forall>r \<in> set air. 0 \<le> pm25 r \<and> 0 \<le> pm10 r \<and> 0 \<le> no2 r \<and> 0 \<le> co r))"
proof (intro conjI impI ballI)
  fix r
  assume "generate_traffic_sensors env self rng p1 = Some (Inr (traffic, q1))" "r \<in> set traffic"
  with generate_traffic_sensors_Inr obtain ts sensors q where
    "r \<in> set (fst (traffic_data rng ts sensors q))"
    by blast
  then obtain t s q' where "r = fst (traffic_reading rng t s q')"
    using traffic_data_set by blast
  then show "0 \<le> vehicle_count r" "5 \<le> avg_speed r"
    by (simp_all only: traffic_reading_bounds)
next
  fix r
  assume "generate_weather_data env self rng p2 = Some (Inr (wth, q2))" "r \<in> set wth"
  with generate_weather_data_Inr obtain ts stations q where
    "r \<in> set (fst (weather_data rng ts stations q))"
    by blast
  then obtain t s d q' where "r = fst (weather_reading rng t d s q')"
    using weather_data_set by blast
  then show "20 \<le> humidity r" "humidity r \<le> 100" "0 \<le> wind_speed r" "0 \<le> precipitation r"
    by (simp_all only: weather_reading_bounds)
next
  fix r
  assume "generate_air_quality_data env self rng p3 = Some (Inr (air, q3))" "r \<in> set air"
  with generate_air_quality_data_Inr obtain ts monitors q where
    "r \<in> set (fst (air_quality_data rng ts monitors q))"
    by blast
  then obtain t m q' where "r = fst (air_quality_reading rng t m q')"
    using air_quality_data_set by blast
  then show "0 \<le> pm25 r" "0 \<le> pm10 r" "0 \<le> no2 r" "0 \<le> co r"
    by (simp_all only: air_quality_reading_bounds)
qed

text \<open>The theorem for the tables of the week before 2026-11-03T12:00:00, none of which
  is empty.\<close>

theorem clamped_fields_witness:
  "\<exists>traffic q1 wth q2 air q3.
     generate_traffic_sensors steady_environment week_before_noon zero_source 0 =
       Some (Inr (traffic, q1)) \<and> traffic \<noteq> [] \<and>
     (\<forall>r \<in> set traffic. 0 \<le> vehicle_count r \<and> 5 \<le> avg_speed r) \<and>
     generate_weather_data steady_environment week_before_noon zero_source 0 =
       Some (Inr (wth, q2)) \<and> wth \<noteq> [] \<and>
     (\<forall>r \<in> set wth. 20 \<le> humidity r \<and> humidity r \<le> 100 \<and>
                     0 \<le> wind_speed r \<and> 0 \<le> precipitation r) \<and>
     generate_air_quality_data steady_environment week_before_noon zero_source 0 =
       Some (Inr (air, q3)) \<and> air \<noteq> [] \<and>
     (\<forall>r \<in> set air. 0 \<le> pm25 r \<and> 0 \<le> pm10 r \<and> 0 \<le> no2 r \<and> 0 \<le> co r)"
proof -
  obtain traffic q1 where 1:
    "generate_traffic_sensors steady_environment week_before_noon zero_source 0 = Some (Inr (traffic, q1))"
    using generate_traffic_sensors_returns [OF steady_environment_writes week_before_noon_timestamps(1)]
    by blast
  obtain wth q2 where 2:
    "generate_weather_data steady_environment week_before_noon zero_source 0 = Some (Inr (wth, q2))"
    using generate_weather_data_returns [OF steady_environment_writes week_before_noon_timestamps(3)]
    by blast
  obtain air q3 where 3:
    "generate_air_quality_data steady_environment week_before_noon zero_source 0 = Some (Inr (air, q3))"
    using generate_air_quality_data_returns [OF steady_environment_writes week_before_noon_timestamps(2)]
    by blast
  have n: "traffic \<noteq> []" "wth \<noteq> []" "air \<noteq> []"
    using traffic_rows_nonempty [OF 1 week_before_noon_timestamps(1) week_before_noon_nonempty(1)]
      weather_rows_nonempty [OF 2 week_before_noon_timestamps(3) week_before_noon_nonempty(3)]
      air_quality_rows_nonempty [OF 3 week_before_noon_timestamps(2) week_before_noon_nonempty(2)]
    by auto
  from clamped_fields_in_bounds [of steady_environment week_before_noon zero_source
      0 traffic q1 0 wth q2 0 air q3] 1 2 3 n
  show ?thesis by blast
qed

text \<open>
  C10. The humidity of every record of the air quality table is the Uniform(30, 80)
  sample itself, with no floor or cap applied; with uniform draws from the half-open
  unit interval it lies between 30 and 80, hence between 0 and 100.
\<close>

theorem air_humidity_unclamped_in_range:
  assumes "draws_in_range rng"
    and "generate_air_quality_data env self rng p = Some (Inr (rows, p'))"
    and "r \<in> set rows"
  shows "(\<exists>q. aq_humidity r = fst (np_random_uniform rng 30 80 q)) \<and>
         30 \<le> aq_humidity r \<and> aq_humidity r \<le> 80 \<and>
         0 \<le> aq_humidity r \<and> aq_humidity r \<le> 100"
proof -
  from generate_air_quality_data_Inr [OF assms(2)] assms(3)
  obtain ts monitors q where "r \<in> set (fst (air_quality_data rng ts monitors q))"
    by blast
  then obtain t m q' where "r = fst (air_quality_reading rng t m q')"
    using air_quality_data_set by blast
  then have h: "aq_humidity r = fst (np_random_uniform rng 30 80 (q' + 5))"
    by (simp only: air_quality_reading_humidity)
  moreover have "30 \<le> fst (np_random_uniform rng 30 80 (q' + 5)) \<and>
      fst (np_random_uniform rng 30 80 (q' + 5)) \<le> 80"
    using assms(1) by (rule np_random_uniform_range) simp
  ultimately show ?thesis
    by auto
qed

text \<open>The theorem for a record of the week before 2026-11-03T12:00:00.\<close>

theorem air_humidity_witness:
  "draws_in_range zero_source \<and>
   (\<exists>rows p' r.
      generate_air_quality_data steady_environment week_before_noon zero_source 0 =
        Some (Inr (rows, p')) \<and> r \<in> set rows \<and>
      30 \<le> aq_humidity r \<and> aq_humidity r \<le> 80)"
proof -
  obtain rows p' where g:
    "generate_air_quality_data steady_environment week_before_noon zero_source 0 = Some (Inr (rows, p'))"
    using generate_air_quality_data_returns [OF steady_environment_writes week_before_noon_timestamps(2)]
    by blast
  have m: "hd rows \<in> set rows"
    using g week_before_noon_timestamps(2) week_before_noon_nonempty(2)
    by (rule air_quality_rows_nonempty)
  from air_humidity_unclamped_in_range [OF zero_source_in_range g m] g m zero_source_in_range
  show ?thesis by blast
qed

subsection \<open>Energy consumption and current\<close>

lemma energy_rows_nonempty:
  assumes "generate_energy_data env self rng p = Some (Inr (rows, p'))"
    and "generate_timestamps self 10 = Some (Inr ts)" "ts \<noteq> []"
  shows "hd rows \<in> set rows"
proof -
  from generate_energy_data_Inr [OF assms(1)] assms(2)
  obtain meters q where "length meters = 200" and "energy_data rng ts meters q = Inr (rows, p')"
    by auto
  then have "length rows = length ts * 200"
    using energy_data_length by fastforce
  with assms(3) have "rows \<noteq> []" by auto
  then show ?thesis by simp
qed

lemma energy_rows_readings:
  assumes "generate_energy_data env self rng p = Some (Inr (rows, p'))" "r \<in> set rows"
  shows "\<exists>t m q q'. energy_reading rng t m q = Inr (r, q')"
proof -
  from generate_energy_data_Inr [OF assms(1)]
  obtain ts meters q where "energy_data rng ts meters q = Inr (rows, p')"
    by blast
  from energy_data_set [OF this assms(2)] show ?thesis
    by blast
qed

lemma noon_fields: "hour noon = 12" "weekday noon = 1"
  by (simp_all add: hour_def weekday_def noon_def)

lemma energy_reading_office_at_noon:
  "energy_reading zero_source noon office_meter 0 =
     Inr (\<lparr>en_meter_id = ''ENERGY_0001'', en_timestamp = noon, en_building_type = ''office'',
           en_location_lat = 40.75, en_location_lon = - 74,
           power_consumption = 21, voltage = 240, current = 87.5, power_factor = 0.85\<rparr>,
          Suc (Suc (Suc 0)))"
  by (simp add: energy_reading_def office_meter_def zero_source_def base_consumption_def
      consumption_factor_def np_random_uniform_def np_random_normal_def Let_def noon_fields)

lemma office_meter_known: "base_consumption (building_type office_meter) \<noteq> None"
  by (simp add: office_meter_def base_consumption_def)

text \<open>
  C5. For every record of the energy table the power consumption is the base consumption
  of its building type times the consumption factor times a Uniform(0.7, 1.3) sample,
  where the factor is the one the specification gives for the record's building type,
  business hours (hour from 8 to 18) and weekend (weekday at least 5). The factor computed
  by the code is 1.5 in business hours of a working day and 0.3 otherwise for commercial,
  office and retail, always 1.0 for industrial, and 1.2 from 18 to 22 hours and 0.8
  otherwise for residential.
\<close>

theorem consumption_factor_by_building_type:
  "(generate_energy_data env self rng p = Some (Inr (rows, p')) \<longrightarrow> r \<in> set rows \<longrightarrow>
      (\<exists>base factor q.
         base_consumption (en_building_type r) = Some base \<and>
         consumption_factor_spec (en_building_type r)
           (8 \<le> hour (en_timestamp r) \<and> hour (en_timestamp r) \<le> 18)
           (weekday (en_timestamp r) \<ge> 5) (hour (en_timestamp r)) = Some factor \<and>
         power_consumption r = base * factor * fst (np_random_uniform rng 0.7 1.3 q))) \<and>
   consumption_factor ''commercial'' h bh we = (if bh \<and> \<not> we then 1.5 else 0.3) \<and>
   consumption_factor ''office'' h bh we = (if bh \<and> \<not> we then 1.5 else 0.3) \<and>
   consumption_factor ''retail'' h bh we = (if bh \<and> \<not> we then 1.5 else 0.3) \<and>
   consumption_factor ''industrial'' h bh we = 1.0 \<and>
   consumption_factor ''residential'' h bh we = (if 18 \<le> h \<and> h \<le> 22 then 1.2 else 0.8)"
proof (intro conjI impI)
  assume g: "generate_energy_data env self rng p = Some (Inr (rows, p'))" and r: "r \<in> set rows"
  from energy_rows_readings [OF g r] obtain t m q q' where
    "energy_reading rng t m q = Inr (r, q')"
    by blast
  from energy_reading_Inr [OF this] obtain base where
    b: "base_consumption (building_type m) = Some base"
    and f: "en_building_type r = building_type m" "en_timestamp r = t"
    and pw: "power_consumption r =
             base * consumption_factor (building_type m) (hour t)
                      (8 \<le> hour t \<and> hour t \<le> 18) (weekday t \<ge> 5) *
               fst (np_random_uniform rng 0.7 1.3 q)"
    by blast
  from b have "building_type m \<in> set building_types"
    using base_consumption_keys [of "building_type m"] by simp
  then have "consumption_factor_spec (building_type m)
        (8 \<le> hour t \<and> hour t \<le> 18) (weekday t \<ge> 5) (hour t) =
      Some (consumption_factor (building_type m) (hour t)
        (8 \<le> hour t \<and> hour t \<le> 18) (weekday t \<ge> 5))"
    by (rule consumption_factor_is_spec)
  with b f pw show "\<exists>base factor q.
         base_consumption (en_building_type r) = Some base \<and>
         consumption_factor_spec (en_building_type r)
           (8 \<le> hour (en_timestamp r) \<and> hour (en_timestamp r) \<le> 18)
           (weekday (en_timestamp r) \<ge> 5) (hour (en_timestamp r)) = Some factor \<and>
         power_consumption r = base * factor * fst (np_random_uniform rng 0.7 1.3 q)"
    by auto
qed (simp_all add: consumption_factor_def)

text \<open>The theorem for a record of the week before 2026-11-03T12:00:00.\<close>

theorem consumption_factor_witness:
  "\<exists>rows p' r base factor q.
     generate_energy_data steady_environment week_before_noon zero_source 0 =
       Some (Inr (rows, p')) \<and> r \<in> set rows \<and>
     base_consumption (en_building_type r) = Some base \<and>
     consumption_factor_spec (en_building_type r)
       (8 \<le> hour (en_timestamp r) \<and> hour (en_timestamp r) \<le> 18)
       (weekday (en_timestamp r) \<ge> 5) (hour (en_timestamp r)) = Some factor \<and>
     power_consumption r = base * factor * fst (np_random_uniform zero_source 0.7 1.3 q)"
proof -
  obtain rows p' where g:
    "generate_energy_data steady_environment week_before_noon zero_source 0 = Some (Inr (rows, p'))"
    using generate_energy_data_returns
      [OF steady_environment_writes zero_source_volts week_before_noon_timestamps(4)]
    by blast
  have m: "hd rows \<in> set rows"
    using g week_before_noon_timestamps(4) week_before_noon_nonempty(4)
    by (rule energy_rows_nonempty)
  from consumption_factor_by_building_type
    [of steady_environment week_before_noon zero_source 0 rows p' "hd rows"] g m
  show ?thesis by blast
qed

text \<open>
  C9. For every record of the energy table the voltage is a Normal(240, 5) sample, it is
  not zero, and the current is the power consumption divided by the voltage, times 1000.
  The division has no guard: a reading whose sampled voltage is zero raises
  \<open>ZeroDivisionError\<close>, and every other reading (of a known building type) yields its
  record.
\<close>

theorem current_is_power_over_voltage:
  "(generate_energy_data env self rng p = Some (Inr (rows, p')) \<longrightarrow>
      (\<forall>r \<in> set rows.
         (\<exists>q. voltage r = fst (np_random_normal rng 240 5 q)) \<and> voltage r \<noteq> 0 \<and>
         current r = power_consumption r / voltage r * 1000)) \<and>
   (base_consumption (building_type m) \<noteq> None \<longrightarrow>
      (if fst (np_random_normal rng 240 5 (Suc q)) = 0
       then energy_reading rng t m q = Inl ZeroDivisionError
       else (\<exists>r q'. energy_reading rng t m q = Inr (r, q') \<and>
               voltage r = fst (np_random_normal rng 240 5 (Suc q)) \<and>
               current r = power_consumption r / voltage r * 1000)))"
proof (intro conjI impI ballI)
  fix r
  assume g: "generate_energy_data env self rng p = Some (Inr (rows, p'))" and r: "r \<in> set rows"
  from energy_rows_readings [OF g r] obtain t' m' k k' where
    "energy_reading rng t' m' k = Inr (r, k')"
    by blast
  from energy_reading_Inr [OF this]
  show "\<exists>q. voltage r = fst (np_random_normal rng 240 5 q)" "voltage r \<noteq> 0"
    "current r = power_consumption r / voltage r * 1000"
    by blast+
next
  assume b: "base_consumption (building_type m) \<noteq> None"
  show "if fst (np_random_normal rng 240 5 (Suc q)) = 0
       then energy_reading rng t m q = Inl ZeroDivisionError
       else (\<exists>r q'. energy_reading rng t m q = Inr (r, q') \<and>
               voltage r = fst (np_random_normal rng 240 5 (Suc q)) \<and>
               current r = power_consumption r / voltage r * 1000)"
  proof (cases "fst (np_random_normal rng 240 5 (Suc q)) = 0")
    case True
    with energy_reading_zero_voltage [OF b] show ?thesis by simp
  next
    case False
    from energy_reading_returns [OF b False] obtain r q' where
      e: "energy_reading rng t m q = Inr (r, q')"
      by blast
    from energy_reading_Inr [OF e] e False show ?thesis
      by auto
  qed
qed

text \<open>The theorem for a record of the week before 2026-11-03T12:00:00, for a reading
  with a voltage of 240, and for a reading with a voltage of zero.\<close>

theorem current_witness:
  "(\<exists>rows p' r.
      generate_energy_data steady_environment week_before_noon zero_source 0 =
        Some (Inr (rows, p')) \<and> r \<in> set rows \<and>
      voltage r \<noteq> 0 \<and> current r = power_consumption r / voltage r * 1000) \<and>
   base_consumption (building_type office_meter) \<noteq> None \<and>
   fst (np_random_normal zero_source 240 5 (Suc 0)) = 240 \<and>
   (\<exists>r q'. energy_reading zero_source noon office_meter 0 = Inr (r, q') \<and>
      voltage r = 240 \<and> current r = power_consumption r / voltage r * 1000) \<and>
   fst (np_random_normal zero_volt_source 240 5 (Suc 0)) = 0 \<and>
   energy_reading zero_volt_source noon office_meter 0 = Inl ZeroDivisionError"
proof -
  obtain rows p' where g:
    "generate_energy_data steady_environment week_before_noon zero_source 0 = Some (Inr (rows, p'))"
    using generate_energy_data_returns
      [OF steady_environment_writes zero_source_volts week_before_noon_timestamps(4)]
    by blast
  have m: "hd rows \<in> set rows"
    using g week_before_noon_timestamps(4) week_before_noon_nonempty(4)
    by (rule energy_rows_nonempty)
  have v1: "fst (np_random_normal zero_source 240 5 (Suc 0)) = 240"
    by (simp add: np_random_normal_def zero_source_def)
  have v2: "fst (np_random_normal zero_volt_source 240 5 (Suc 0)) = 0"
    by (simp add: np_random_normal_def zero_volt_source_def)
  from current_is_power_over_voltage
    [of steady_environment week_before_noon zero_source 0 rows p' office_meter 0 noon] g m
  have a: "\<exists>rows p' r.
      generate_energy_data steady_environment week_before_noon zero_source 0 =
        Some (Inr (rows, p')) \<and> r \<in> set rows \<and>
      voltage r \<noteq> 0 \<and> current r = power_consumption r / voltage r * 1000"
    by blast
  from current_is_power_over_voltage
    [of steady_environment week_before_noon zero_source 0 rows p' office_meter 0 noon]
    office_meter_known v1
  have b: "\<exists>r q'. energy_reading zero_source noon office_meter 0 = Inr (r, q') \<and>
      voltage r = 240 \<and> current r = power_consumption r / voltage r * 1000"
    by simp
  from current_is_power_over_voltage
    [of steady_environment week_before_noon zero_volt_source 0 rows p' office_meter 0 noon]
    office_meter_known v2
  have c: "energy_reading zero_volt_source noon office_meter 0 = Inl ZeroDivisionError"
    by simp
  from a b c office_meter_known v1 v2 show ?thesis
    by blast
qed

subsection \<open>The shared daily temperature\<close>

text \<open>
  C7. The weather table has ten records for every timestamp of the series. For each
  timestamp there is one draw position \<open>q\<close> whose Normal(0, 3) sample gives the value
  20 + sample + sin((hour - 6) * pi / 12) * 0.3 * 5, and the temperatures of all ten
  records of that timestamp are this one value plus a Normal(0, 1) sample each, taken at
  ten draw positions that differ from each other and from \<open>q\<close>.
\<close>

theorem shared_day_temp:
  assumes "generate_weather_data env self rng p = Some (Inr (rows, p'))"
  shows "\<exists>ts. generate_timestamps self 30 = Some (Inr ts) \<and> length rows = length ts * 10 \<and>
     (\<forall>i<length ts. \<exists>q ks. length ks = 10 \<and> distinct (q # ks) \<and>
        (\<forall>j<10. w_timestamp (rows ! (i * 10 + j)) = ts ! i \<and>
                temperature (rows ! (i * 10 + j)) =
                  day_temp_spec (fst (np_random_normal rng 0 3 q)) (hour (ts ! i)) +
                  fst (np_random_normal rng 0 1 (ks ! j))))"
proof -
  from generate_weather_data_Inr [OF assms] obtain stations q0 ts where
    len: "length stations = 10" and gts: "generate_timestamps self 30 = Some (Inr ts)"
    and rows: "rows = fst (weather_data rng ts stations q0)"
    by blast
  note gts
  moreover have "length rows = length ts * 10"
    using len rows by (simp add: weather_data_length)
  moreover have "\<forall>i<length ts. \<exists>q ks. length ks = 10 \<and> distinct (q # ks) \<and>
        (\<forall>j<10. w_timestamp (rows ! (i * 10 + j)) = ts ! i \<and>
                temperature (rows ! (i * 10 + j)) =
                  day_temp_spec (fst (np_random_normal rng 0 3 q)) (hour (ts ! i)) +
                  fst (np_random_normal rng 0 1 (ks ! j)))"
  proof (intro allI impI)
    fix i assume i: "i < length ts"
    have same: "fst (weather_data rng ts stations q0) ! (i * length stations + j) =
        fst (for_each (weather_at rng stations) ts q0) ! i ! j" if "j < 10" for j
    proof -
      let ?bs = "fst (for_each (weather_at rng stations) ts q0)"
      have "concat ?bs ! (i * length stations + j) = ?bs ! i ! j"
      proof (rule concat_nth_uniform)
        fix b assume "b \<in> set ?bs"
        then obtain t q where "b = fst (weather_at rng stations t q)"
          using for_each_set by fastforce
        then show "length b = length stations"
          by (simp add: weather_at_length)
      qed (use i that len in \<open>simp_all add: for_each_length\<close>)
      then show ?thesis
        by (simp add: weather_data_def split_beta)
    qed
    define q where "q = draw_positions (weather_at rng stations) ts q0 ! i"
    have row: "rows ! (i * 10 + j) = fst (weather_at rng stations (ts ! i) q) ! j" if "j < 10" for j
      using same [OF that] i len rows by (simp add: for_each_nth q_def)
    from weather_at_block [of stations q rng "ts ! i"] obtain ks where
      ks: "length ks = length stations" "distinct (q # ks)"
      and blk: "\<forall>j<length stations.
          w_timestamp (fst (weather_at rng stations (ts ! i) q) ! j) = ts ! i \<and>
          temperature (fst (weather_at rng stations (ts ! i) q) ! j) =
            day_temp_spec (fst (np_random_normal rng 0 3 q)) (hour (ts ! i)) +
            fst (np_random_normal rng 0 1 (ks ! j))"
      by blast
    have "\<forall>j<10. w_timestamp (rows ! (i * 10 + j)) = ts ! i \<and>
                temperature (rows ! (i * 10 + j)) =
                  day_temp_spec (fst (np_random_normal rng 0 3 q)) (hour (ts ! i)) +
                  fst (np_random_normal rng 0 1 (ks ! j))"
      using blk row len by simp
    with ks len show "\<exists>q ks. length ks = 10 \<and> distinct (q # ks) \<and>
        (\<forall>j<10. w_timestamp (rows ! (i * 10 + j)) = ts ! i \<and>
                temperature (rows ! (i * 10 + j)) =
                  day_temp_spec (fst (np_random_normal rng 0 3 q)) (hour (ts ! i)) +
                  fst (np_random_normal rng 0 1 (ks ! j)))"
      by (intro exI [of _ q] exI [of _ ks]) simp
  qed
  ultimately show ?thesis by blast
qed

text \<open>The theorem for the 336 timestamps of the week before 2026-11-03T12:00:00.\<close>

theorem shared_day_temp_witness:
  "\<exists>rows p' ts.
     generate_weather_data steady_environment week_before_noon zero_source 0 =
       Some (Inr (rows, p')) \<and>
     generate_timestamps week_before_noon 30 = Some (Inr ts) \<and> length ts = 336 \<and>
     length rows = 3360 \<and>
     (\<forall>i<336. \<exists>q ks. length ks = 10 \<and> distinct (q # ks) \<and>
        (\<forall>j<10. w_timestamp (rows ! (i * 10 + j)) = ts ! i \<and>
                temperature (rows ! (i * 10 + j)) =
                  day_temp_spec (fst (np_random_normal zero_source 0 3 q)) (hour (ts ! i)) +
                  fst (np_random_normal zero_source 0 1 (ks ! j))))"
proof -
  obtain rows p' where g:
    "generate_weather_data steady_environment week_before_noon zero_source 0 = Some (Inr (rows, p'))"
    using generate_weather_data_returns [OF steady_environment_writes week_before_noon_timestamps(3)]
    by blast
  have ts: "generate_timestamps week_before_noon 30 =
      Some (Inr (series (start_time week_before_noon) (end_time week_before_noon) 1800000000))"
    by (rule week_before_noon_timestamps)
  have n: "length (series (start_time week_before_noon) (end_time week_before_noon)
      1800000000) = 336"
    by (simp add: series_length seven_days_before_noon)
  from shared_day_temp [OF g] have "length rows = 3360 \<and>
     (\<forall>i<336. \<exists>q ks. length ks = 10 \<and> distinct (q # ks) \<and>
        (\<forall>j<10. w_timestamp (rows ! (i * 10 + j)) =
                  series (start_time week_before_noon) (end_time week_before_noon)
                    1800000000 ! i \<and>
                temperature (rows ! (i * 10 + j)) =
                  day_temp_spec (fst (np_random_normal zero_source 0 3 q))
                    (hour (series (start_time week_before_noon) (end_time week_before_noon)
                       1800000000 ! i)) +
                  fst (np_random_normal zero_source 0 1 (ks ! j))))"
    unfolding ts using n by simp
  with g ts n show ?thesis
    by blast
qed

subsection \<open>The exit code\<close>

text \<open>\<open>main\<close> returns 0 when the body of the \<open>try\<close> statement completes, 1 when the
  body raises an \<open>Exception\<close> that is not an \<open>ImportError\<close>, and 0 again when the body
  raises an \<open>ImportError\<close>; any other exception leaves \<open>main\<close>.\<close>

lemma main_exit_code:
  "main_try env rng = Some (Inr d) \<Longrightarrow> main env rng = Some (Inr 0)"
  "main_try env rng = Some (Inl e) \<Longrightarrow> isinstance_ImportError e \<Longrightarrow> main env rng = Some (Inr 0)"
  "main_try env rng = Some (Inl e) \<Longrightarrow> \<not> isinstance_ImportError e \<Longrightarrow> isinstance_Exception e \<Longrightarrow>
     main env rng = Some (Inr 1)"
  "main_try env rng = Some (Inl e) \<Longrightarrow> \<not> isinstance_Exception e \<Longrightarrow> main env rng = Some (Inl e)"
  by (cases e; simp add: main_def)+

lemma generate_weather_data_write_raises:
  assumes "write_raises env ''weather_data.parquet'' = Some e"
    and "generate_timestamps self 30 = Some (Inr ts)"
  shows "generate_weather_data env self rng p = Some (Inl e)"
  using assms
  by (simp add: generate_weather_data_def split_beta)

lemma window_timestamps:
  assumes "0 \<le> start_time self" "end_time self + 1800000000 \<le> datetime_max"
  shows "\<exists>ts. generate_timestamps self 5 = Some (Inr ts)"
    "\<exists>ts. generate_timestamps self 15 = Some (Inr ts)"
    "\<exists>ts. generate_timestamps self 30 = Some (Inr ts)"
    "\<exists>ts. generate_timestamps self 10 = Some (Inr ts)"
  using assms
  by (simp_all add: generate_timestamps_series timedelta_minutes_whole series_within_range)

lemma main_try_completes:
  assumes "mkdir_raises env = None" "\<And>f. write_raises env f = None"
    and "\<And>k. fst (np_random_normal rng 240 5 k) \<noteq> 0"
    and "timedelta_days NUM_DAYS \<le> now_first env" "now_first env \<le> datetime_max"
    and "now_second env + 1800000000 \<le> datetime_max"
  shows "\<exists>d. main_try env rng = Some (Inr d)"
proof -
  let ?self = "\<lparr>start_time = now_first env - timedelta_days NUM_DAYS, end_time = now_second env\<rparr>"
  have i: "init env = Inr ?self"
    using assms(1,4,5) by (rule init_in_range)
  have r: "0 \<le> start_time ?self" "end_time ?self + 1800000000 \<le> datetime_max"
    using assms(4,6) by simp_all
  from window_timestamps [OF r] obtain ts1 ts2 ts3 ts4 where
    ts: "generate_timestamps ?self 5 = Some (Inr ts1)" "generate_timestamps ?self 15 = Some (Inr ts2)"
      "generate_timestamps ?self 30 = Some (Inr ts3)" "generate_timestamps ?self 10 = Some (Inr ts4)"
    by blast
  obtain t p1 where 1: "generate_traffic_sensors env ?self rng 0 = Some (Inr (t, p1))"
    using generate_traffic_sensors_returns [OF assms(2) ts(1)] by blast
  obtain a p2 where 2: "generate_air_quality_data env ?self rng p1 = Some (Inr (a, p2))"
    using generate_air_quality_data_returns [OF assms(2) ts(2)] by blast
  obtain w p3 where 3: "generate_weather_data env ?self rng p2 = Some (Inr (w, p3))"
    using generate_weather_data_returns [OF assms(2) ts(3)] by blast
  obtain en p4 where 4: "generate_energy_data env ?self rng p3 = Some (Inr (en, p4))"
    using generate_energy_data_returns [OF assms(2) assms(3) ts(4)] by blast
  show ?thesis
    using assms(2) i 1 2 3 4
    by (simp add: main_try_def generate_all_data_def generate_city_zones_def)
qed

lemma main_completes_with_zero:
  assumes "mkdir_raises env = None" "\<And>f. write_raises env f = None"
    and "\<And>k. fst (np_random_normal rng 240 5 k) \<noteq> 0"
    and "timedelta_days NUM_DAYS \<le> now_first env" "now_first env \<le> datetime_max"
    and "now_second env + 1800000000 \<le> datetime_max"
  shows "main env rng = Some (Inr 0)"
  using main_try_completes [OF assms] main_exit_code(1) by blast

lemma main_try_parquet_import_error:
  assumes "mkdir_raises env = None" "write_raises env ''traffic_sensors.csv'' = None"
    "write_raises env ''air_quality.json'' = None"
    "write_raises env ''weather_data.parquet'' = Some e"
    and "timedelta_days NUM_DAYS \<le> now_first env" "now_first env \<le> datetime_max"
    and "now_second env + 1800000000 \<le> datetime_max"
  shows "main_try env rng = Some (Inl e)"
proof -
  let ?self = "\<lparr>start_time = now_first env - timedelta_days NUM_DAYS, end_time = now_second env\<rparr>"
  have i: "init env = Inr ?self"
    using assms(1,5,6) by (rule init_in_range)
  have r: "0 \<le> start_time ?self" "end_time ?self + 1800000000 \<le> datetime_max"
    using assms(5,7) by simp_all
  from window_timestamps [OF r] obtain ts1 ts2 ts3 where
    ts: "generate_timestamps ?self 5 = Some (Inr ts1)" "generate_timestamps ?self 15 = Some (Inr ts2)"
      "generate_timestamps ?self 30 = Some (Inr ts3)"
    by blast
  obtain t p1 where 1: "generate_traffic_sensors env ?self rng 0 = Some (Inr (t, p1))"
    using generate_traffic_sensors_returns [OF assms(2) ts(1)] by blast
  obtain a p2 where 2: "generate_air_quality_data env ?self rng p1 = Some (Inr (a, p2))"
    using generate_air_quality_data_returns [OF assms(3) ts(2)] by blast
  have 3: "generate_weather_data env ?self rng p2 = Some (Inl e)"
    using assms(4) ts(3) by (rule generate_weather_data_write_raises)
  show ?thesis
    using i 1 2 3
    by (simp add: main_try_def generate_all_data_def)
qed

lemma os_error_exit_code_one:
  "main (steady_environment\<lparr>mkdir_raises := Some OSError\<rparr>) rng = Some (Inr 1)"
  by (simp add: main_def main_try_def init_def steady_environment_def datetime_add_def
      noon_def timedelta_days_def NUM_DAYS_def datetime_max_def)

text \<open>
  C2. When the writer of the parquet file raises \<open>ImportError\<close>, the body of the
  \<open>try\<close> statement ends with that exception and \<open>main\<close> returns 0, not 1: the handler
  for \<open>ImportError\<close> prints its message and has no \<open>return 1\<close>.
\<close>

theorem import_error_exit_code_zero:
  "main_try parquet_engine_missing zero_source = Some (Inl ImportError) \<and>
   main parquet_engine_missing zero_source = Some (Inr 0)"
proof -
  have "main_try parquet_engine_missing zero_source = Some (Inl ImportError)"
    by (rule main_try_parquet_import_error)
      (simp_all add: parquet_engine_missing_def noon_def timedelta_days_def NUM_DAYS_def
        datetime_max_def)
  then show ?thesis
    by (simp add: main_exit_code(2))
qed

end
